theory Spec2Isabelle
  imports Complex_Main "HOL-Library.Log_Nat"
begin

section \<open>Numbers\<close>

text \<open>
  The game computes with JavaScript numbers, which are IEEE 754 doubles. Counters, the
  score and level numbers (which only ever hold integers) are modelled as \<open>int\<close>; widths,
  positions, speeds and thresholds as reals. Sums, differences and the products that
  position and size a block are taken exactly, and so is the arithmetic of the level
  table: a synthesized speed, width or threshold is the real number that the machine
  approximates. The one product whose last bit decides an outcome, the perfect threshold
  times a width in \<open>dropBlock\<close>, is the double product: both factors are read as the
  nearest doubles and their product is rounded to the nearest double, ties to even.

  \<open>toDouble\<close> is that rounding for magnitudes in the normal range of doubles (the game's
  widths and thresholds lie between 0.4 and a few hundred): \<open>binaryExponent x\<close> is the
  \<open>e\<close> with \<open>2 ^ e \<le> x < 2 ^ (e + 1)\<close>, and a double of that binade is a multiple
  of \<open>2 ^ (e - 52)\<close>.
\<close>

definition roundHalfEven :: "real \<Rightarrow> int" where
  "roundHalfEven y =
     (let f = \<lfloor>y\<rfloor>; d = y - of_int f
      in if d < 1 / 2 then f else if 1 / 2 < d then f + 1 else if even f then f else f + 1)"

definition binaryExponent :: "real \<Rightarrow> int" where
  "binaryExponent x =
     (if 1 \<le> x then int (floorlog 2 (nat \<lfloor>x\<rfloor>)) - 1
      else - int (floorlog 2 (nat (\<lceil>1 / x\<rceil> - 1))))"

definition toDouble :: "real \<Rightarrow> real" where
  "toDouble x =
     (if x = 0 then 0
      else let u = 2 powi (binaryExponent \<bar>x\<bar> - 52)
           in sgn x * (of_int (roundHalfEven (\<bar>x\<bar> / u)) * u))"

text \<open>The \<open>*\<close> of JavaScript on two numbers.\<close>

definition doubleProduct :: "real \<Rightarrow> real \<Rightarrow> real" where
  "doubleProduct a b = toDouble (toDouble a * toDouble b)"

section \<open>Level table (levels.js)\<close>

record width_range =
  wr_min :: real
  wr_max :: real

text \<open>
  One entry of \<open>LEVELS\<close>. The display-only fields (name, description, rewards and the
  description of the special mechanic) are left out; \<open>lc_specialMechanics\<close> holds the
  \<open>type\<close> tag of \<open>specialMechanics\<close>, \<open>None\<close> where the object has no such field, and
  \<open>lc_blocksToComplete\<close> is \<open>None\<close> for \<open>null\<close>.
\<close>

record level_config =
  lc_id :: int
  lc_blocksToComplete :: "int option"
  lc_blockSpeed :: real
  lc_blockWidthRange :: width_range
  lc_perfectThreshold :: real
  lc_speedIncrease :: real
  lc_specialMechanics :: "string option"

definition BASE_pointsPerBlock :: int where
  "BASE_pointsPerBlock = 10"

definition BASE_comboMultiplier :: real where
  "BASE_comboMultiplier = 1.5"

definition LEVELS :: "level_config list" where
  "LEVELS =
    [ \<lparr> lc_id = 1, lc_blocksToComplete = Some 3, lc_blockSpeed = 0.4,
        lc_blockWidthRange = \<lparr> wr_min = 140, wr_max = 180 \<rparr>,
        lc_perfectThreshold = 0.4, lc_speedIncrease = 0.01,
        lc_specialMechanics = Some ''tutorial'' \<rparr>,
      \<lparr> lc_id = 2, lc_blocksToComplete = Some 3, lc_blockSpeed = 0.6,
        lc_blockWidthRange = \<lparr> wr_min = 120, wr_max = 160 \<rparr>,
        lc_perfectThreshold = 0.5, lc_speedIncrease = 0.02,
        lc_specialMechanics = Some ''size_reduction'' \<rparr>,
      \<lparr> lc_id = 3, lc_blocksToComplete = Some 3, lc_blockSpeed = 0.8,
        lc_blockWidthRange = \<lparr> wr_min = 100, wr_max = 140 \<rparr>,
        lc_perfectThreshold = 0.55, lc_speedIncrease = 0.03,
        lc_specialMechanics = Some ''speed_boost'' \<rparr>,
      \<lparr> lc_id = 4, lc_blocksToComplete = Some 3, lc_blockSpeed = 1.0,
        lc_blockWidthRange = \<lparr> wr_min = 80, wr_max = 120 \<rparr>,
        lc_perfectThreshold = 0.65, lc_speedIncrease = 0.04,
        lc_specialMechanics = Some ''precision_challenge'' \<rparr>,
      \<lparr> lc_id = 5, lc_blocksToComplete = Some 3, lc_blockSpeed = 1.0,
        lc_blockWidthRange = \<lparr> wr_min = 80, wr_max = 120 \<rparr>,
        lc_perfectThreshold = 0.6, lc_speedIncrease = 0.04,
        lc_specialMechanics = Some ''wind_effect'' \<rparr>,
      \<lparr> lc_id = 6, lc_blocksToComplete = Some 3, lc_blockSpeed = 1.4,
        lc_blockWidthRange = \<lparr> wr_min = 60, wr_max = 100 \<rparr>,
        lc_perfectThreshold = 0.65, lc_speedIncrease = 0.06,
        lc_specialMechanics = Some ''gravity_shift'' \<rparr>,
      \<lparr> lc_id = 7, lc_blocksToComplete = Some 3, lc_blockSpeed = 1.6,
        lc_blockWidthRange = \<lparr> wr_min = 50, wr_max = 90 \<rparr>,
        lc_perfectThreshold = 0.7, lc_speedIncrease = 0.08,
        lc_specialMechanics = Some ''ultimate_challenge'' \<rparr> ]"

text \<open>
  \<open>getLevelConfig\<close>: the entry of \<open>LEVELS\<close> with the given id, or the endless-mode default
  (no quota, no special mechanic) when \<open>LEVELS.find\<close> finds none.
\<close>

definition getLevelConfig :: "int \<Rightarrow> level_config" where
  "getLevelConfig levelNumber =
    (case find (\<lambda>l. lc_id l = levelNumber) LEVELS of
       None \<Rightarrow>
         \<lparr> lc_id = levelNumber, lc_blocksToComplete = None, lc_blockSpeed = 1.5,
           lc_blockWidthRange = \<lparr> wr_min = 50, wr_max = 90 \<rparr>,
           lc_perfectThreshold = 0.8, lc_speedIncrease = 0.08,
           lc_specialMechanics = None \<rparr>
     | Some level \<Rightarrow> level)"

record level_params =
  lp_blockSpeed :: real
  lp_blockWidthRange :: width_range
  lp_perfectThreshold :: real
  lp_speedIncrease :: real
  lp_pointsPerBlock :: int
  lp_comboMultiplier :: real

definition applyEndlessScaling :: "level_params \<Rightarrow> int \<Rightarrow> level_params" where
  "applyEndlessScaling params levelNumber =
    (let scaleFactor = 1 + (real_of_int levelNumber - 10) * 0.1 in
     params
       \<lparr> lp_blockSpeed := lp_blockSpeed params * scaleFactor,
         lp_blockWidthRange :=
           \<lparr> wr_min = max 30 (wr_min (lp_blockWidthRange params)
                               * (1 - (real_of_int levelNumber - 10) * 0.02)),
             wr_max = max 60 (wr_max (lp_blockWidthRange params)
                               * (1 - (real_of_int levelNumber - 10) * 0.02)) \<rparr>,
         lp_perfectThreshold :=
           min 0.99 (lp_perfectThreshold params + (real_of_int levelNumber - 10) * 0.01),
         lp_pointsPerBlock := \<lfloor>real_of_int (lp_pointsPerBlock params) * scaleFactor\<rfloor> \<rparr>)"

text \<open>
  \<open>calculateLevelParameters\<close>. The source also applies \<open>applySpecialRules\<close> when the level
  object has a \<open>specialRules\<close> field; no object that \<open>getLevelConfig\<close> returns has one, so
  that branch is never taken and is not part of the model.
\<close>

definition calculateLevelParameters :: "int \<Rightarrow> level_params" where
  "calculateLevelParameters levelNumber =
    (let level = getLevelConfig levelNumber;
         params = \<lparr> lp_blockSpeed = lc_blockSpeed level,
                    lp_blockWidthRange = lc_blockWidthRange level,
                    lp_perfectThreshold = lc_perfectThreshold level,
                    lp_speedIncrease = lc_speedIncrease level,
                    lp_pointsPerBlock = BASE_pointsPerBlock,
                    lp_comboMultiplier = BASE_comboMultiplier \<rparr>
     in if levelNumber > 7 then applyEndlessScaling params levelNumber else params)"

section \<open>Blocks and the game state (game.js)\<close>

text \<open>
  \<open>gameState.config\<close>. \<open>PhysicsStackTowerGame.init\<close> may merge other values into it, so
  the configuration is a field of the state; \<open>defaultConfig\<close> is the literal of the source.
\<close>

record config =
  canvasWidth :: real
  canvasHeight :: real
  blockHeight :: real
  minBlockWidth :: real
  maxBlockWidth :: real
  initialBlockWidth :: real
  baseBlockSpeed :: real
  speedIncrease :: real

definition defaultConfig :: config where
  "defaultConfig =
    \<lparr> canvasWidth = 800, canvasHeight = 800, blockHeight = 30, minBlockWidth = 40,
      maxBlockWidth = 200, initialBlockWidth = 150, baseBlockSpeed = 0.8,
      speedIncrease = 0.05 \<rparr>"

text \<open>
  A \<open>Block\<close> object. \<open>position\<close> is flattened to \<open>pos_x\<close> and \<open>pos_y\<close>. The fields
  \<open>verticalSpeed\<close>, \<open>perfectDrop\<close>, \<open>missing\<close> and \<open>collapsing\<close> are added to the object
  after construction; until then they are \<open>undefined\<close>, which every reader in the source
  treats like \<open>0\<close> respectively \<open>false\<close>. The colour, the time stamps of the animation
  flags and the per-mechanic render hints are not modelled.
\<close>

record block =
  block_id :: int
  width :: real
  pos_x :: real
  pos_y :: real
  speed :: real
  isMoving :: bool
  isPlaced :: bool
  originalWidth :: real
  verticalSpeed :: real
  perfectDrop :: bool
  missing :: bool
  collapsing :: bool

definition Block :: "int \<Rightarrow> real \<Rightarrow> real \<Rightarrow> real \<Rightarrow> real \<Rightarrow> bool \<Rightarrow> block" where
  "Block i w px py sp moving =
    \<lparr> block_id = i, width = w, pos_x = px, pos_y = py, speed = sp, isMoving = moving,
      isPlaced = False, originalWidth = w, verticalSpeed = 0, perfectDrop = False,
      missing = False, collapsing = False \<rparr>"

text \<open>
  The \<open>gameState\<close> object. \<open>currentLevelConfig\<close>, \<open>currentLevelParams\<close> and
  \<open>gravityShiftVerticalSpeed\<close> are created by the first \<open>initGame\<close> respectively
  \<open>generateNewBlock\<close>; the latter is read only for its truthiness, so \<open>undefined\<close> is \<open>0\<close>.
\<close>

record game_state =
  tower :: "block list"
  currentBlock :: "block option"
  score :: int
  level :: int
  isActive :: bool
  isPaused :: bool
  blocksPlaced :: int
  blocksInCurrentLevel :: int
  speedMultiplier :: real
  perfectThreshold :: real
  comboStreak :: int
  config :: config
  currentLevelConfig :: level_config
  currentLevelParams :: level_params
  gravityShiftVerticalSpeed :: real

text \<open>
  The results of \<open>Math.random()\<close> that one call of \<open>generateNewBlock\<close> consumes, in call
  order: the first for the width, the following ones for the special mechanic.
\<close>

record randoms =
  rand1 :: real
  rand2 :: real
  rand3 :: real
  rand4 :: real

subsection \<open>Block methods\<close>

definition place :: "block \<Rightarrow> block" where
  "place b = b\<lparr> isMoving := False, isPlaced := True, speed := 0 \<rparr>"

definition shrink :: "config \<Rightarrow> real \<Rightarrow> block \<Rightarrow> block" where
  "shrink cfg newWidth b =
    (let minWidth = max (minBlockWidth cfg * 0.7) 20
     in b\<lparr> width := max newWidth minWidth \<rparr>)"

definition calculateOverlap :: "block \<Rightarrow> block \<Rightarrow> real" where
  "calculateOverlap block1 block2 =
    (let block1Left = pos_x block1;
         block1Right = pos_x block1 + width block1;
         block2Left = pos_x block2;
         block2Right = pos_x block2 + width block2
     in max 0 (min block1Right block2Right - max block1Left block2Left))"

text \<open>
  \<open>Block.update\<close>, for a block of state \<open>s\<close>. The clock and the random generator are
  inputs: \<open>sway\<close> is the value of \<open>Math.sin(Date.now() * 0.005)\<close> and \<open>r\<close> the result
  of \<open>Math.random()\<close>.
\<close>

definition Block_update :: "game_state \<Rightarrow> real \<Rightarrow> real \<Rightarrow> real \<Rightarrow> block \<Rightarrow> block" where
  "Block_update s deltaTime sway r b =
    (if isMoving b then
       let specialMechanics = lc_specialMechanics (currentLevelConfig s);
           currentSpeed =
             (if specialMechanics = Some ''wind_effect''
              then speed b + sway * 0.5 else speed b);
           verticalSpeed1 =
             (if specialMechanics = Some ''gravity_shift''
              then verticalSpeed b + (r - 0.5) * 0.1 else verticalSpeed b);
           b1 = b\<lparr> pos_x := pos_x b + currentSpeed * deltaTime,
                   pos_y := pos_y b + verticalSpeed1 * deltaTime \<rparr>;
           b2 = (if pos_x b1 \<le> 0 \<or> pos_x b1 + width b1 \<ge> canvasWidth (config s)
                 then b1\<lparr> speed := - speed b1,
                          pos_x := max 0 (min (pos_x b1) (canvasWidth (config s) - width b1)) \<rparr>
                 else b1);
           baseY = canvasHeight (config s)
                     - (real (length (tower s)) + 2) * blockHeight (config s);
           maxDeviation = blockHeight (config s);
           minY = baseY - maxDeviation;
           maxY = baseY + maxDeviation
       in if pos_y b2 < minY then b2\<lparr> pos_y := minY, verticalSpeed := 0 \<rparr>
          else if pos_y b2 > maxY then b2\<lparr> pos_y := maxY, verticalSpeed := 0 \<rparr>
          else b2\<lparr> verticalSpeed := verticalSpeed1 \<rparr>
     else b)"

subsection \<open>Starting a session and generating blocks\<close>

definition generateNewBlock :: "randoms \<Rightarrow> game_state \<Rightarrow> game_state" where
  "generateNewBlock rnd s =
    (let blockId = blocksPlaced s + 1;
         levelParams = currentLevelParams s;
         blockWidth0 = max (minBlockWidth (config s))
           (wr_min (lp_blockWidthRange levelParams)
            + rand1 rnd * (wr_max (lp_blockWidthRange levelParams)
                           - wr_min (lp_blockWidthRange levelParams)));
         blockSpeed0 = lp_blockSpeed levelParams;
         specialMechanics = lc_specialMechanics (currentLevelConfig s);
         n = real_of_int (blocksInCurrentLevel s);
         blockWidth =
           (if specialMechanics = Some ''size_reduction''
              then blockWidth0 * max 0.7 (1 - n * 0.05)
            else if specialMechanics = Some ''ultimate_challenge''
              then blockWidth0 * max 0.8 (1 - n * 0.03)
            else blockWidth0);
         blockSpeed =
           (if specialMechanics = Some ''speed_boost''
              then (if blocksInCurrentLevel s > 0 then blockSpeed0 * (1 + n * 0.1)
                    else blockSpeed0)
            else if specialMechanics = Some ''wind_effect''
              then blockSpeed0 + (rand2 rnd - 0.5) * 0.4
            else if specialMechanics = Some ''gravity_shift''
              then blockSpeed0 + (rand2 rnd - 0.5) * 0.3
            else if specialMechanics = Some ''ultimate_challenge''
              then (if blocksInCurrentLevel s > 0 then blockSpeed0 * (1 + n * 0.05)
                    else blockSpeed0)
                   + (rand2 rnd - 0.5) * 0.2 + (rand3 rnd - 0.5) * 0.2
            else blockSpeed0);
         gsvs =
           (if specialMechanics = Some ''gravity_shift'' then (rand3 rnd - 0.5) * 0.2
            else if specialMechanics = Some ''ultimate_challenge'' then (rand4 rnd - 0.5) * 0.15
            else gravityShiftVerticalSpeed s);
         newBlock = Block blockId blockWidth 0
           (canvasHeight (config s) - (real (length (tower s)) + 2) * blockHeight (config s))
           blockSpeed True;
         newBlock' =
           (if (specialMechanics = Some ''gravity_shift''
                \<or> specialMechanics = Some ''ultimate_challenge'') \<and> gsvs \<noteq> 0
            then newBlock\<lparr> verticalSpeed := gsvs \<rparr> else newBlock)
     in s\<lparr> currentBlock := Some newBlock', gravityShiftVerticalSpeed := gsvs \<rparr>)"

definition initGame :: "int \<Rightarrow> randoms \<Rightarrow> game_state \<Rightarrow> game_state" where
  "initGame lvl rnd s =
    (let levelConfig = getLevelConfig lvl;
         levelParams = calculateLevelParameters lvl;
         baseBlock = Block 0 (initialBlockWidth (config s))
           ((canvasWidth (config s) - initialBlockWidth (config s)) / 2)
           (canvasHeight (config s) - blockHeight (config s)) 0 False
     in generateNewBlock rnd
          (s\<lparr> tower := [place baseBlock], score := 0, level := lvl, blocksPlaced := 0,
              blocksInCurrentLevel := 0, comboStreak := 0, isActive := True,
              isPaused := False, currentLevelConfig := levelConfig,
              currentLevelParams := levelParams,
              perfectThreshold := lp_perfectThreshold levelParams \<rparr>))"

subsection \<open>Dropping a block\<close>

text \<open>
  What \<open>dropBlock\<close> returns: one of its result objects (a failure with its \<open>gameOver\<close> flag
  and message, or a success with \<open>perfectAlignment\<close>, \<open>overlap\<close> and \<open>points\<close>), nothing at
  all (the bare \<open>return\<close> after the final level), or the \<open>TypeError\<close> that
  \<open>calculateOverlap\<close> raises when the tower is empty and its top is \<open>undefined\<close>.
\<close>

datatype drop_result =
  Failure bool string
  | Success bool real int
  | Undefined
  | TypeError

definition showLevelComplete :: "game_state \<Rightarrow> game_state" where
  "showLevelComplete s = s\<lparr> isPaused := True \<rparr>"

definition showGameCompleted :: "game_state \<Rightarrow> game_state" where
  "showGameCompleted s = s\<lparr> isPaused := True, isActive := False \<rparr>"

text \<open>
  \<open>dropBlock\<close> is modelled in two parts. \<open>completeDrop\<close> is its second half, from the
  comment ``Add block to tower'' to the end: it appends the landed block \<open>b\<close>, counts it,
  adds the base points and handles the completion of the level. \<open>perfectAlignment\<close> and
  \<open>overlap\<close> are the locals of the first half that the result object reports; \<open>rnd\<close> are
  the random numbers for the next block.

  Sounds, particles, popups and the timers that clear animation flags later have no effect
  on the state and are left out; \<open>showLevelComplete\<close> and \<open>showGameCompleted\<close> contribute
  their assignments to \<open>isPaused\<close> and \<open>isActive\<close> (\<open>saveGameState\<close>, which the latter
  calls last, is not among the sources and is taken to return). The source mutates the
  current block in place, so wherever it returns before \<open>generateNewBlock\<close> the state
  still holds the mutated block.
\<close>

definition completeDrop ::
  "randoms \<Rightarrow> bool \<Rightarrow> real \<Rightarrow> game_state \<Rightarrow> block \<Rightarrow> drop_result \<times> game_state" where
  "completeDrop rnd perfectAlignment overlap s b =
    (let s1 = s\<lparr> tower := tower s @ [b],
                 blocksPlaced := blocksPlaced s + 1,
                 blocksInCurrentLevel := blocksInCurrentLevel s + 1,
                 currentBlock := Some b \<rparr>;
         basePoints = 10 + level s1 * 5;
         s2 = s1\<lparr> score := score s1 + basePoints \<rparr>;
         levelConfig = currentLevelConfig s2;
         result = Success perfectAlignment overlap
                    (basePoints + (if perfectAlignment then 100 * comboStreak s2 else 0))
     in
     if (case lc_blocksToComplete levelConfig of
           None \<Rightarrow> False
         | Some q \<Rightarrow> q \<noteq> 0 \<and> blocksInCurrentLevel s2 \<ge> q)
     then
       if level s2 = 7 then (Undefined, showGameCompleted s2)
       else
         let newLevelConfig = getLevelConfig (level s2 + 1);
             newLevelParams = calculateLevelParameters (level s2 + 1);
             s3 = s2\<lparr> level := level s2 + 1,
                      blocksInCurrentLevel := 0,
                      currentLevelConfig := newLevelConfig,
                      currentLevelParams := newLevelParams,
                      perfectThreshold := lp_perfectThreshold newLevelParams \<rparr>
         in (result, generateNewBlock rnd (showLevelComplete s3))
     else (result, generateNewBlock rnd s2))"

text \<open>
  The first half of \<open>dropBlock\<close>: the guards, the overlap with the top of the tower, the
  miss, the placement, and the perfect and imperfect branches. The page of the game is
  taken to be there: \<open>addFailureAnimations\<close> and \<open>showScorePopup\<close> find the canvas and
  its wrapper, so the former flags a missed block and the latter has no effect on the
  state.
\<close>

definition dropBlock :: "randoms \<Rightarrow> game_state \<Rightarrow> drop_result \<times> game_state" where
  "dropBlock rnd s =
    (case currentBlock s of
       None \<Rightarrow> (Failure False ''No block to drop'', s)
     | Some cb \<Rightarrow>
       if \<not> isMoving cb then (Failure False ''No block to drop'', s)
       else if tower s = [] then (TypeError, s)
       else
         let lastTowerBlock = last (tower s);
             overlap = calculateOverlap cb lastTowerBlock
         in
         if overlap \<le> 0 then
           (Failure True ''Block missed the tower!'',
            s\<lparr> isActive := False, currentBlock := Some (cb\<lparr> missing := True \<rparr>) \<rparr>)
         else
           let placed = (place cb)\<lparr> pos_y := pos_y lastTowerBlock - blockHeight (config s),
                                    verticalSpeed := 0 \<rparr>;
               thresholdBlock = (if width placed < width lastTowerBlock then placed
                                 else lastTowerBlock);
               perfectAlignment =
                 (overlap \<ge> doubleProduct (width thresholdBlock) (perfectThreshold s))
           in
           if perfectAlignment then
             let comboMultiplier =
                   (if lc_specialMechanics (currentLevelConfig s) = Some ''precision_challenge''
                    then 2 else 1);
                 bonusPoints = 100 * (comboStreak s + 1) * comboMultiplier
             in completeDrop rnd perfectAlignment overlap
                  (s\<lparr> comboStreak := comboStreak s + 1, score := score s + bonusPoints \<rparr>)
                  (placed\<lparr> perfectDrop := True \<rparr>)
           else
             let shrunk = shrink (config s) overlap placed;
                 minWidth = max (minBlockWidth (config s) * 0.7) 20
             in
             if width shrunk < minWidth then
               (Failure True ''Block too small to continue!'',
                s\<lparr> comboStreak := 0, isActive := False, currentBlock := Some shrunk \<rparr>)
             else completeDrop rnd perfectAlignment overlap (s\<lparr> comboStreak := 0 \<rparr>) shrunk)"

subsection \<open>The frame update and the stability check\<close>

text \<open>The \<open>for\<close> loop of \<open>checkTowerStability\<close>, from index \<open>i\<close> with the sum so far.\<close>

function totalOffsetLoop :: "block list \<Rightarrow> nat \<Rightarrow> real \<Rightarrow> real" where
  "totalOffsetLoop tw i totalOffset =
    (if i < length tw then
       let currentCenter = pos_x (tw ! i) + width (tw ! i) / 2;
           previousCenter = pos_x (tw ! (i - 1)) + width (tw ! (i - 1)) / 2;
           offset = \<bar>currentCenter - previousCenter\<bar>
       in totalOffsetLoop tw (i + 1) (totalOffset + offset)
     else totalOffset)"
  by pat_completeness auto
termination
  by (relation "measure (\<lambda>(tw, i, totalOffset). length tw - i)") auto

declare totalOffsetLoop.simps [simp del]

definition triggerTowerCollapse :: "game_state \<Rightarrow> game_state" where
  "triggerTowerCollapse s = s\<lparr> tower := map (\<lambda>b. b\<lparr> collapsing := True \<rparr>) (tower s) \<rparr>"

definition checkTowerStability :: "game_state \<Rightarrow> game_state" where
  "checkTowerStability s =
    (if length (tower s) < 3 then s
     else
       let totalOffset = totalOffsetLoop (tower s) 1 0;
           baseMaxOffset = canvasWidth (config s) * 0.6;
           levelMultiplier = max 0.8 (1 - (real_of_int (level s) - 1) * 0.02);
           maxOffset = baseMaxOffset * levelMultiplier
       in if totalOffset > maxOffset then triggerTowerCollapse (s\<lparr> isActive := False \<rparr>)
          else s)"

definition updateGame :: "real \<Rightarrow> real \<Rightarrow> real \<Rightarrow> game_state \<Rightarrow> game_state" where
  "updateGame deltaTime sway r s =
    (if \<not> isActive s \<or> isPaused s then s
     else
       checkTowerStability
         (case currentBlock s of
            None \<Rightarrow> s
          | Some cb \<Rightarrow>
              if isMoving cb
              then s\<lparr> currentBlock := Some (Block_update s deltaTime sway r cb) \<rparr>
              else s))"

definition pauseGame :: "game_state \<Rightarrow> game_state" where
  "pauseGame s = s\<lparr> isPaused := True \<rparr>"

definition resumeGame :: "game_state \<Rightarrow> game_state" where
  "resumeGame s = s\<lparr> isPaused := False \<rparr>"

definition resetGame :: "randoms \<Rightarrow> game_state \<Rightarrow> game_state" where
  "resetGame rnd s = (initGame 1 rnd s)\<lparr> isActive := True, isPaused := False \<rparr>"

text \<open>
  \<open>gameLoop\<close>, the animation-frame callback, run over a list of frames: each frame has
  the time elapsed since the previous one, which the loop caps at \<open>1000 / 30\<close> before it
  calls \<open>updateGame\<close>, and the sway and random number that \<open>updateGame\<close> reads.
  Rendering has no effect on the state.
\<close>

fun gameLoop :: "(real \<times> real \<times> real) list \<Rightarrow> game_state \<Rightarrow> game_state" where
  "gameLoop [] s = s"
| "gameLoop ((deltaTime, sway, r) # rest) s =
     (let cappedDeltaTime = min deltaTime (1000 / 30)
      in gameLoop rest (updateGame cappedDeltaTime sway r s))"

text \<open>
  The states of a session: those that \<open>initGame\<close> produces from any state with the
  configuration of the source, and all that drops, frame updates, pausing, resuming and
  resetting lead to from there.
\<close>

inductive reachable :: "game_state \<Rightarrow> bool" where
  start: "config s = defaultConfig \<Longrightarrow> reachable (initGame lvl rnd s)"
| drop: "reachable s \<Longrightarrow> reachable (snd (dropBlock rnd s))"
| tick: "reachable s \<Longrightarrow> reachable (updateGame deltaTime sway r s)"
| pause: "reachable s \<Longrightarrow> reachable (pauseGame s)"
| resume: "reachable s \<Longrightarrow> reachable (resumeGame s)"
| reset: "reachable s \<Longrightarrow> reachable (resetGame rnd s)"

section \<open>Notions of the specification\<close>

text \<open>
  The perfect-drop condition in the specification's words: the overlap reaches the product
  of the width of the narrower of the two blocks and the perfect threshold, the product
  being the one of the machine.
\<close>

abbreviation perfectCond :: "game_state \<Rightarrow> block \<Rightarrow> bool" where
  "perfectCond s cb \<equiv>
     doubleProduct (min (width cb) (width (last (tower s)))) (perfectThreshold s)
       \<le> calculateOverlap cb (last (tower s))"

text \<open>The level's quota is reached by the block that is being placed.\<close>

definition quotaReached :: "game_state \<Rightarrow> bool" where
  "quotaReached s =
    (case lc_blocksToComplete (currentLevelConfig s) of
       None \<Rightarrow> False
     | Some q \<Rightarrow> q \<noteq> 0 \<and> q \<le> blocksInCurrentLevel s + 1)"




text \<open>
  The active block fully overlaps the top of the tower: the overlap is the whole width of
  the narrower of the two.
\<close>

definition fullyOverlaps :: "game_state \<Rightarrow> bool" where
  "fullyOverlaps s \<longleftrightarrow>
     (case currentBlock s of
        None \<Rightarrow> False
      | Some cb \<Rightarrow>
          tower s \<noteq> []
          \<and> calculateOverlap cb (last (tower s)) = min (width cb) (width (last (tower s))))"

text \<open>
  Invariants used in the proofs: with the configuration of the source, every block of
  the tower and the current block are at least 28 wide; and a session at level 1 that
  has a moving block, with its counters.
\<close>

definition hasMovingBlock :: "game_state \<Rightarrow> bool" where
  "hasMovingBlock s \<longleftrightarrow> (case currentBlock s of None \<Rightarrow> False | Some cb \<Rightarrow> isMoving cb)"

definition currentOk :: "game_state \<Rightarrow> bool" where
  "currentOk s \<longleftrightarrow> (case currentBlock s of None \<Rightarrow> True | Some cb \<Rightarrow> 28 \<le> width cb)"

definition widthsOk :: "game_state \<Rightarrow> bool" where
  "widthsOk s \<longleftrightarrow>
     config s = defaultConfig \<and> (\<forall>b \<in> set (tower s). 28 \<le> width b) \<and> currentOk s"

definition level1Ready :: "game_state \<Rightarrow> int \<Rightarrow> int \<Rightarrow> int \<Rightarrow> bool" where
  "level1Ready s k c sc \<longleftrightarrow>
     widthsOk s \<and> tower s \<noteq> []
     \<and> hasMovingBlock s
     \<and> level s = 1 \<and> currentLevelConfig s = getLevelConfig 1 \<and> perfectThreshold s = 0.4
     \<and> blocksInCurrentLevel s = k \<and> comboStreak s = c \<and> score s = sc"

section \<open>Example sessions\<close>

text \<open>
  The \<open>gameState\<close> literal of the source. Its two level fields do not exist before the
  first \<open>initGame\<close>, which sets them before anything reads them; here they hold the values
  of level 1.
\<close>

definition gameState0 :: game_state where
  "gameState0 =
    \<lparr> tower = [], currentBlock = None, score = 0, level = 1, isActive = False,
      isPaused = False, blocksPlaced = 0, blocksInCurrentLevel = 0, speedMultiplier = 1,
      perfectThreshold = 0.8, comboStreak = 0, config = defaultConfig,
      currentLevelConfig = getLevelConfig 1,
      currentLevelParams = calculateLevelParameters 1,
      gravityShiftVerticalSpeed = 0 \<rparr>"

definition rnd0 :: randoms where
  "rnd0 = \<lparr> rand1 = 0, rand2 = 0, rand3 = 0, rand4 = 0 \<rparr>"

text \<open>
  A fresh session at level 1: the base block is 150 wide at 325, the first block 140 wide
  at the left edge, moving at 0.4 per unit of time.
\<close>

definition freshSession :: game_state where
  "freshSession = initGame 1 rnd0 gameState0"

text \<open>
  The first block after 25 frames of 33 each: at 330, inside the base block.
\<close>

definition alignedSession :: game_state where
  "alignedSession = gameLoop (replicate 25 (33, 0, 0)) freshSession"

text \<open>The first block after 20 frames of 25 each: at 200, overlapping the base block by 15.\<close>

definition grazingSession :: game_state where
  "grazingSession = gameLoop (replicate 20 (25, 0, 0)) freshSession"

text \<open>
  The aligned block dropped and the second block brought to 330 as well; then the same
  once more, with the third block.
\<close>

definition secondBlockSession :: game_state where
  "secondBlockSession =
     gameLoop (replicate 25 (33, 0, 0)) (snd (dropBlock rnd0 alignedSession))"

definition thirdBlockSession :: game_state where
  "thirdBlockSession =
     gameLoop (replicate 25 (33, 0, 0)) (snd (dropBlock rnd0 secondBlockSession))"

text \<open>
  An endless-mode session at level 10 (perfect threshold 0.8, speed 1.5) on a
  configuration whose blocks are all 100 wide, the moving block brought to 330
  respectively 329 over the base block at 350: overlaps of 80 and of 79.
\<close>

definition wideConfig :: config where
  "wideConfig = defaultConfig\<lparr> minBlockWidth := 100, initialBlockWidth := 100 \<rparr>"

definition wideSession :: game_state where
  "wideSession = initGame 10 rnd0 (gameState0\<lparr> config := wideConfig \<rparr>)"

definition overlap80Session :: game_state where
  "overlap80Session = gameLoop (replicate 8 (27.5, 0, 0)) wideSession"

definition overlap79Session :: game_state where
  "overlap79Session = gameLoop (replicate 7 (94 / 3, 0, 0)) wideSession"

text \<open>
  A session at level 3 (perfect threshold 0.55, blocks 100 wide, speed 0.8), the first
  block after 14 frames of 25 each: at 280, overlapping the base block at 325 by 55.
\<close>

definition level3Session :: game_state where
  "level3Session = gameLoop (replicate 14 (25, 0, 0)) (initGame 3 rnd0 gameState0)"

text \<open>
  A session at level 1 on a configuration whose base block is 10 wide (at 395), as
  \<open>init\<close> merges it from its caller's \<open>initialBlockWidth\<close>, and its first block brought to
  330, over the whole of the base block. Then a session whose moving block is 10 wide, at
  390 over the base block of 150.
\<close>

definition narrowConfig :: config where
  "narrowConfig = defaultConfig\<lparr> initialBlockWidth := 10 \<rparr>"

definition narrowSession :: game_state where
  "narrowSession = initGame 1 rnd0 (gameState0\<lparr> config := narrowConfig \<rparr>)"

definition narrowAlignedSession :: game_state where
  "narrowAlignedSession = gameLoop (replicate 25 (33, 0, 0)) narrowSession"

definition thinBlockSession :: game_state where
  "thinBlockSession = freshSession\<lparr> currentBlock := Some (Block 1 10 390 710 0.4 True) \<rparr>"


section \<open>Properties of the double product\<close>


text \<open>
  Rounding moves a non-negative number up by at most the fraction \<open>1 / 2 ^ 53\<close> of itself,
  so the product of a width and a threshold of at most 0.99 does not exceed the width.
\<close>

lemma roundHalfEven_le: "of_int (roundHalfEven y) \<le> y + 1 / 2"
  unfolding roundHalfEven_def Let_def by (simp; linarith)

lemma roundHalfEven_nonneg: "0 \<le> y \<Longrightarrow> 0 \<le> roundHalfEven y"
  unfolding roundHalfEven_def Let_def by (simp; linarith)

lemma binaryExponent_le:
  assumes "0 < x"
  shows "2 powi (binaryExponent x) \<le> x"
proof (cases "1 \<le> x")
  case True
  define n where "n = nat \<lfloor>x\<rfloor>"
  define k where "k = floorlog 2 n"
  have n: "0 < n" unfolding n_def using True by simp
  have fl: "0 < k" unfolding k_def using n by (simp add: floorlog_def)
  have "2 ^ (k - 1) \<le> n" unfolding k_def using floorlog_bounds [of n 2] n by simp
  hence "real (2 ^ (k - 1)) \<le> real n" by (rule of_nat_mono)
  hence "(2::real) ^ (k - 1) \<le> real n" by simp
  also have "real n \<le> x" unfolding n_def using True by simp
  finally have le: "(2::real) ^ (k - 1) \<le> x" .
  have "binaryExponent x = int (k - 1)"
    unfolding binaryExponent_def k_def n_def using True fl [unfolded k_def n_def] by simp
  thus ?thesis using le by (simp only: power_int_of_nat)
next
  case False
  define c where "c = \<lceil>1 / x\<rceil>"
  define n where "n = nat (c - 1)"
  define k where "k = floorlog 2 n"
  have "1 < 1 / x" using False assms by simp
  hence c: "2 \<le> c" unfolding c_def by linarith
  hence n: "0 < n" unfolding n_def by simp
  have cn: "c = int (n + 1)" unfolding n_def using c by simp
  have "n < 2 ^ k" unfolding k_def using floorlog_bounds [of n 2] n by simp
  hence "n + 1 \<le> 2 ^ k" by simp
  hence "real (n + 1) \<le> real (2 ^ k)" by (rule of_nat_mono)
  hence ck: "real_of_int c \<le> 2 ^ k" unfolding cn by simp
  have "1 / x \<le> real_of_int c" unfolding c_def by (rule le_of_int_ceiling)
  hence "1 / x \<le> 2 ^ k" using ck by (rule order_trans)
  hence "1 \<le> 2 ^ k * x" using assms by (simp add: pos_divide_le_eq)
  hence le: "1 / 2 ^ k \<le> x" by (simp add: pos_divide_le_eq mult.commute)
  have "binaryExponent x = - int k"
    unfolding binaryExponent_def k_def n_def c_def using False by simp
  thus ?thesis using le by (simp add: power_int_minus_divide)
qed

lemma toDouble_nonneg:
  assumes "0 \<le> x"
  shows "0 \<le> toDouble x"
proof (cases "x = 0")
  case True thus ?thesis by (simp add: toDouble_def)
next
  case False
  hence x: "0 < x" using assms by simp
  define u :: real where "u = 2 powi (binaryExponent x - 52)"
  have u: "0 < u" unfolding u_def by simp
  have "0 \<le> roundHalfEven (x / u)" using x u by (intro roundHalfEven_nonneg) simp
  hence "0 \<le> of_int (roundHalfEven (x / u)) * u" using u by simp
  moreover have "toDouble x = of_int (roundHalfEven (x / u)) * u"
    unfolding toDouble_def Let_def u_def using x by simp
  ultimately show ?thesis by simp
qed

lemma toDouble_le:
  assumes "0 \<le> x"
  shows "toDouble x \<le> x * (1 + 1 / 2 ^ 53)"
proof (cases "x = 0")
  case True thus ?thesis by (simp add: toDouble_def)
next
  case False
  hence x: "0 < x" using assms by simp
  define u :: real where "u = 2 powi (binaryExponent x - 52)"
  have u: "0 < u" unfolding u_def by simp
  have "u = 2 powi (binaryExponent x) / 2 ^ 52"
    unfolding u_def by (simp add: power_int_diff)
  hence ux: "u \<le> x / 2 ^ 52" using binaryExponent_le [OF x] by (simp add: field_simps)
  have td: "toDouble x = of_int (roundHalfEven (x / u)) * u"
    unfolding toDouble_def Let_def u_def using x by simp
  have "of_int (roundHalfEven (x / u)) * u \<le> (x / u + 1 / 2) * u"
    using roundHalfEven_le [of "x / u"] u by (simp only: mult_le_cancel_right_pos)
  also have "\<dots> = x + u / 2" using u by (simp add: field_simps)
  also have "\<dots> \<le> x + (x / 2 ^ 52) / 2" using ux by simp
  also have "\<dots> = x * (1 + 1 / 2 ^ 53)" by (simp add: field_simps)
  finally show ?thesis unfolding td .
qed

lemma doubleProduct_le:
  assumes w: "0 \<le> w" and t0: "0 \<le> t" and t: "t \<le> 99 / 100"
  shows "doubleProduct w t \<le> w"
proof -
  define e :: real where "e = 1 + 1 / 2 ^ 53"
  have e: "0 \<le> e" unfolding e_def by simp
  have a: "toDouble w \<le> w * e" and a0: "0 \<le> toDouble w"
    unfolding e_def using toDouble_le [OF w] toDouble_nonneg [OF w] by simp_all
  have b: "toDouble t \<le> t * e" and b0: "0 \<le> toDouble t"
    unfolding e_def using toDouble_le [OF t0] toDouble_nonneg [OF t0] by simp_all
  have ab0: "0 \<le> toDouble w * toDouble t" using a0 b0 by simp
  have "doubleProduct w t \<le> (toDouble w * toDouble t) * e"
    unfolding doubleProduct_def e_def using toDouble_le [OF ab0] .
  also have "\<dots> \<le> ((w * e) * (t * e)) * e"
    using a b a0 b0 e by (intro mult_right_mono mult_mono) (simp_all add: w t0)
  also have "\<dots> = w * (t * (e * e * e))" by (simp add: mult_ac)
  also have "\<dots> \<le> w * 1"
  proof (intro mult_left_mono w)
    have "e * e * e \<le> 100 / 99" unfolding e_def by simp
    moreover have "0 \<le> e * e * e" using e by simp
    ultimately have "t * (e * e * e) \<le> (99 / 100) * (100 / 99)"
      using t t0 by (intro mult_mono) simp_all
    thus "t * (e * e * e) \<le> 1" by simp
  qed
  finally show ?thesis by simp
qed

text \<open>
  \<open>toDouble\<close> picks a nearest double: for a positive \<open>x\<close> with binary exponent \<open>e\<close> the
  result is a whole number between \<open>2 ^ 52\<close> and \<open>2 ^ 53\<close> of units \<open>2 ^ (e - 52)\<close>, at most
  half a unit away from \<open>x\<close>; halfway between two such numbers it is the even one.
\<close>

lemma roundHalfEven_ge: "y - 1 / 2 \<le> of_int (roundHalfEven y)"
  unfolding roundHalfEven_def Let_def by (simp; linarith)

lemma binaryExponent_less:
  assumes "0 < x"
  shows "x < 2 powi (binaryExponent x + 1)"
proof (cases "1 \<le> x")
  case True
  define n where "n = nat \<lfloor>x\<rfloor>"
  define k where "k = floorlog 2 n"
  have n: "0 < n" unfolding n_def using True by simp
  have "n < 2 ^ k" unfolding k_def using floorlog_bounds [of n 2] n by simp
  hence "n + 1 \<le> 2 ^ k" by simp
  hence "real (n + 1) \<le> real (2 ^ k)" by (rule of_nat_mono)
  hence nk: "real n + 1 \<le> 2 ^ k" by simp
  have "x < real n + 1" unfolding n_def using True by simp
  hence lt: "x < 2 ^ k" using nk by simp
  have "binaryExponent x + 1 = int k"
    unfolding binaryExponent_def k_def n_def using True by simp
  thus ?thesis using lt by (simp only: power_int_of_nat)
next
  case False
  define c where "c = \<lceil>1 / x\<rceil>"
  define n where "n = nat (c - 1)"
  define k where "k = floorlog 2 n"
  have "1 < 1 / x" using False assms by simp
  hence c: "2 \<le> c" unfolding c_def by linarith
  hence n: "0 < n" unfolding n_def by simp
  have k: "0 < k" unfolding k_def using n by (simp add: floorlog_def)
  have cn: "real_of_int c = real n + 1" unfolding n_def using c by simp
  have "2 ^ (k - 1) \<le> n" unfolding k_def using floorlog_bounds [of n 2] n by simp
  hence "real (2 ^ (k - 1)) \<le> real n" by (rule of_nat_mono)
  hence "2 ^ (k - 1) \<le> real n" by simp
  hence "2 ^ (k - 1) \<le> real_of_int c - 1" using cn by simp
  moreover have "real_of_int c - 1 < 1 / x" unfolding c_def by linarith
  ultimately have "2 ^ (k - 1) < 1 / x" by simp
  hence "2 ^ (k - 1) * x < 1" using assms by (simp add: pos_less_divide_eq)
  hence lt: "x < 1 / 2 ^ (k - 1)" by (simp add: pos_less_divide_eq mult.commute)
  have "binaryExponent x + 1 = - int (k - 1)"
    unfolding binaryExponent_def k_def n_def c_def using False k [unfolded k_def n_def c_def]
    by simp
  thus ?thesis using lt by (simp add: power_int_minus_divide)
qed


lemma roundHalfEven_floor:
  "\<lfloor>y\<rfloor> \<le> roundHalfEven y" "roundHalfEven y \<le> \<lfloor>y\<rfloor> + 1"
  unfolding roundHalfEven_def Let_def by simp_all

lemma roundHalfEven_tie: "y - of_int \<lfloor>y\<rfloor> = 1 / 2 \<Longrightarrow> even (roundHalfEven y)"
  unfolding roundHalfEven_def Let_def by simp

lemma toDouble_nearest:
  assumes "0 < x"
  shows "\<exists>k::int. toDouble x = of_int k * 2 powi (binaryExponent x - 52)
           \<and> 2 ^ 52 \<le> k \<and> k \<le> 2 ^ 53
           \<and> \<bar>toDouble x - x\<bar> \<le> 2 powi (binaryExponent x - 52) / 2"
proof -
  define u :: real where "u = 2 powi (binaryExponent x - 52)"
  define y where "y = x / u"
  define k where "k = roundHalfEven y"
  have u: "0 < u" unfolding u_def by simp
  have ue: "u * 2 ^ 52 = 2 powi (binaryExponent x)"
    unfolding u_def by (simp add: power_int_diff)
  have ue': "u * 2 ^ 53 = 2 powi (binaryExponent x + 1)"
    unfolding u_def by (simp add: power_int_diff power_int_add)
  have xy: "x = y * u" unfolding y_def using u by simp
  have "u * 2 ^ 52 \<le> y * u"
    unfolding ue xy [symmetric] using assms by (rule binaryExponent_le)
  hence lo: "2 ^ 52 \<le> y" using u by (simp add: mult.commute)
  have "y * u < u * 2 ^ 53"
    unfolding ue' xy [symmetric] using assms by (rule binaryExponent_less)
  hence hi: "y < 2 ^ 53" using u by (simp add: mult.commute)
  have "(2::int) ^ 52 \<le> \<lfloor>y\<rfloor>" using lo by (simp add: le_floor_iff)
  hence k1: "2 ^ 52 \<le> k" unfolding k_def using roundHalfEven_floor(1) [of y] by (rule order_trans)
  have "\<lfloor>y\<rfloor> < (2::int) ^ 53" using hi by (simp add: floor_less_iff)
  hence "\<lfloor>y\<rfloor> + 1 \<le> (2::int) ^ 53" by linarith
  with roundHalfEven_floor(2) [of y] have k2: "k \<le> 2 ^ 53" unfolding k_def by (rule order_trans)
  have td: "toDouble x = of_int k * u"
    unfolding toDouble_def Let_def k_def y_def u_def using assms by simp
  have "\<bar>of_int k - y\<bar> \<le> 1 / 2"
    unfolding k_def using roundHalfEven_le [of y] roundHalfEven_ge [of y] by linarith
  hence "\<bar>of_int k - y\<bar> * u \<le> (1 / 2) * u"
    using u by (simp only: mult_le_cancel_right_pos)
  moreover have "\<bar>of_int k - y\<bar> * u = \<bar>of_int k * u - y * u\<bar>"
  proof -
    have "\<bar>of_int k * u - y * u\<bar> = \<bar>(of_int k - y) * u\<bar>"
      by (simp only: left_diff_distrib)
    also have "\<dots> = \<bar>of_int k - y\<bar> * \<bar>u\<bar>" by (rule abs_mult)
    also have "\<bar>u\<bar> = u" using u by simp
    finally show ?thesis by (rule sym)
  qed
  ultimately have "\<bar>toDouble x - x\<bar> \<le> u / 2"
    unfolding td xy [symmetric] by simp
  with td k1 k2 show ?thesis unfolding u_def by blast
qed

section \<open>Properties of the level table\<close>

lemma getLevelConfig_endless:
  "7 < n \<Longrightarrow> getLevelConfig n =
     \<lparr> lc_id = n, lc_blocksToComplete = None, lc_blockSpeed = 1.5,
       lc_blockWidthRange = \<lparr> wr_min = 50, wr_max = 90 \<rparr>,
       lc_perfectThreshold = 0.8, lc_speedIncrease = 0.08,
       lc_specialMechanics = None \<rparr>"
  by (simp add: getLevelConfig_def LEVELS_def)

lemma endless_params:
  assumes "7 < n"
  shows "lp_blockSpeed (calculateLevelParameters n) = 1.5 * (1 + (real_of_int n - 10) * 0.1)"
    and "lp_perfectThreshold (calculateLevelParameters n)
           = min 0.99 (0.8 + (real_of_int n - 10) * 0.01)"
    and "wr_min (lp_blockWidthRange (calculateLevelParameters n))
           = max 30 (50 * (1 - (real_of_int n - 10) * 0.02))"
    and "wr_max (lp_blockWidthRange (calculateLevelParameters n))
           = max 60 (90 * (1 - (real_of_int n - 10) * 0.02))"
  using assms
  by (simp_all add: calculateLevelParameters_def applyEndlessScaling_def
      getLevelConfig_endless Let_def)

text \<open>
  C5. For level numbers beyond the last defined level (greater than 7) the parameters are
  synthesized by the endless-scaling formulas: the block speed is 1.5 scaled by
  \<open>1 + (n - 10) * 0.1\<close>, the perfect threshold is \<open>0.8 + (n - 10) * 0.01\<close> capped at 0.99,
  and the ends of the block width range are 50 and 90 scaled by \<open>1 - (n - 10) * 0.02\<close>,
  with the floors 30 and 60. They are monotone in the level number: from a level \<open>m\<close> to
  any later level \<open>n\<close> the block speed and the perfect threshold do not decrease and both
  ends of the width range do not increase; the width range never goes below its floors
  and the threshold never exceeds its cap. The speed grows strictly with the level, and
  the other three change strictly until they are clamped: the threshold is at its cap
  from level 29 on, the lower end of the width range at its floor from level 30 on, the
  upper end from level 27 on.
\<close>

theorem endless_scaling_monotone:
  assumes "7 < m" and "m \<le> n"
  shows "lp_blockSpeed (calculateLevelParameters n) = 1.5 * (1 + (real_of_int n - 10) * 0.1)
       \<and> lp_perfectThreshold (calculateLevelParameters n)
           = min 0.99 (0.8 + (real_of_int n - 10) * 0.01)
       \<and> wr_min (lp_blockWidthRange (calculateLevelParameters n))
           = max 30 (50 * (1 - (real_of_int n - 10) * 0.02))
       \<and> wr_max (lp_blockWidthRange (calculateLevelParameters n))
           = max 60 (90 * (1 - (real_of_int n - 10) * 0.02))
       \<and> lp_blockSpeed (calculateLevelParameters m) \<le> lp_blockSpeed (calculateLevelParameters n)
       \<and> lp_perfectThreshold (calculateLevelParameters m)
           \<le> lp_perfectThreshold (calculateLevelParameters n)
       \<and> wr_min (lp_blockWidthRange (calculateLevelParameters n))
           \<le> wr_min (lp_blockWidthRange (calculateLevelParameters m))
       \<and> wr_max (lp_blockWidthRange (calculateLevelParameters n))
           \<le> wr_max (lp_blockWidthRange (calculateLevelParameters m))
       \<and> 30 \<le> wr_min (lp_blockWidthRange (calculateLevelParameters n))
       \<and> 60 \<le> wr_max (lp_blockWidthRange (calculateLevelParameters n))
       \<and> lp_perfectThreshold (calculateLevelParameters n) \<le> 0.99
       \<and> (m < n \<longrightarrow>
             lp_blockSpeed (calculateLevelParameters m) < lp_blockSpeed (calculateLevelParameters n))
       \<and> (m < n \<and> m \<le> 28 \<longrightarrow>
             lp_perfectThreshold (calculateLevelParameters m)
               < lp_perfectThreshold (calculateLevelParameters n))
       \<and> (m < n \<and> m \<le> 29 \<longrightarrow>
             wr_min (lp_blockWidthRange (calculateLevelParameters n))
               < wr_min (lp_blockWidthRange (calculateLevelParameters m)))
       \<and> (m < n \<and> m \<le> 26 \<longrightarrow>
             wr_max (lp_blockWidthRange (calculateLevelParameters n))
               < wr_max (lp_blockWidthRange (calculateLevelParameters m)))
       \<and> (29 \<le> n \<longrightarrow> lp_perfectThreshold (calculateLevelParameters n) = 0.99)
       \<and> (30 \<le> n \<longrightarrow> wr_min (lp_blockWidthRange (calculateLevelParameters n)) = 30)
       \<and> (27 \<le> n \<longrightarrow> wr_max (lp_blockWidthRange (calculateLevelParameters n)) = 60)"
proof -
  from assms have n: "7 < n" by simp
  note pm = endless_params [OF assms(1)] and pn = endless_params [OF n]
  define a b where "a = real_of_int m" and "b = real_of_int n"
  with assms have le: "a \<le> b" by simp
  have lt: "a < b" if "m < n"
    using that by (simp add: a_def b_def)
  have ub: "a \<le> real_of_int k" if "m \<le> k" for k
    using that by (simp add: a_def)
  have lb: "real_of_int k \<le> b" if "k \<le> n" for k
    using that by (simp add: b_def)
  have m1: "1.5 * (1 + (a - 10) * 0.1) \<le> 1.5 * (1 + (b - 10) * 0.1)"
    using le by simp
  have m2: "min 0.99 (0.8 + (a - 10) * 0.01) \<le> min 0.99 (0.8 + (b - 10) * 0.01)"
    using le by (simp add: min_def)
  have m3: "max 30 (50 * (1 - (b - 10) * 0.02)) \<le> max 30 (50 * (1 - (a - 10) * 0.02))"
    using le by (simp add: max_def)
  have m4: "max 60 (90 * (1 - (b - 10) * 0.02)) \<le> max 60 (90 * (1 - (a - 10) * 0.02))"
    using le by (simp add: max_def)
  have b1: "30 \<le> max 30 (50 * (1 - (b - 10) * 0.02))"
    by (rule max.cobounded1)
  have b2: "60 \<le> max 60 (90 * (1 - (b - 10) * 0.02))"
    by (rule max.cobounded1)
  have b3: "min 0.99 (0.8 + (b - 10) * 0.01) \<le> 0.99"
    by (rule min.cobounded1)
  have s1: "1.5 * (1 + (a - 10) * 0.1) < 1.5 * (1 + (b - 10) * 0.1)" if "m < n"
    using lt [OF that] by simp
  have s2: "min 0.99 (0.8 + (a - 10) * 0.01) < min 0.99 (0.8 + (b - 10) * 0.01)"
    if "m < n \<and> m \<le> 28"
  proof -
    from that have "a < b" and "a \<le> 28" using lt ub [of 28] by simp_all
    then show ?thesis by (simp add: min_def)
  qed
  have s3: "max 30 (50 * (1 - (b - 10) * 0.02)) < max 30 (50 * (1 - (a - 10) * 0.02))"
    if "m < n \<and> m \<le> 29"
  proof -
    from that have "a < b" and "a \<le> 29" using lt ub [of 29] by simp_all
    then show ?thesis by (simp add: max_def)
  qed
  have s4: "max 60 (90 * (1 - (b - 10) * 0.02)) < max 60 (90 * (1 - (a - 10) * 0.02))"
    if "m < n \<and> m \<le> 26"
  proof -
    from that have "a < b" and "a \<le> 26" using lt ub [of 26] by simp_all
    then show ?thesis by (simp add: max_def)
  qed
  have c1: "min 0.99 (0.8 + (b - 10) * 0.01) = 0.99" if "29 \<le> n"
    using lb [of 29] that by (simp add: min_def)
  have c2: "max 30 (50 * (1 - (b - 10) * 0.02)) = 30" if "30 \<le> n"
    using lb [of 30] that by (simp add: max_def)
  have c3: "max 60 (90 * (1 - (b - 10) * 0.02)) = 60" if "27 \<le> n"
    using lb [of 27] that by (simp add: max_def)
  from m1 m2 m3 m4 b1 b2 b3 s1 s2 s3 s4 c1 c2 c3 show ?thesis
    unfolding pm pn a_def b_def by blast
qed

theorem endless_scaling_monotone_witness:
  "(7::int) < 8 \<and> (8::int) \<le> 30 \<and> (8::int) < 30
   \<and> (8::int) \<le> 28 \<and> (8::int) \<le> 29 \<and> (8::int) \<le> 26
   \<and> (29::int) \<le> 30 \<and> (30::int) \<le> 30 \<and> (27::int) \<le> 30
   \<and> lp_blockSpeed (calculateLevelParameters 30) = 4.5
   \<and> lp_perfectThreshold (calculateLevelParameters 30) = 0.99
   \<and> wr_min (lp_blockWidthRange (calculateLevelParameters 30)) = 30
   \<and> wr_max (lp_blockWidthRange (calculateLevelParameters 30)) = 60
   \<and> lp_blockSpeed (calculateLevelParameters 8) < lp_blockSpeed (calculateLevelParameters 30)
   \<and> lp_perfectThreshold (calculateLevelParameters 8)
       < lp_perfectThreshold (calculateLevelParameters 30)
   \<and> wr_min (lp_blockWidthRange (calculateLevelParameters 30))
       < wr_min (lp_blockWidthRange (calculateLevelParameters 8))
   \<and> wr_max (lp_blockWidthRange (calculateLevelParameters 30))
       < wr_max (lp_blockWidthRange (calculateLevelParameters 8))"
  using endless_scaling_monotone [of 8 30] by simp

section \<open>Frames in which the block only moves sideways\<close>

lemma checkTowerStability_currentBlock:
  "checkTowerStability (s\<lparr> currentBlock := c \<rparr>) = (checkTowerStability s)\<lparr> currentBlock := c \<rparr>"
  by (simp add: checkTowerStability_def Let_def triggerTowerCollapse_def)

text \<open>
  In an active session without wind and gravity shift, whose tower the stability check
  accepts, a frame moves a block that stays clear of both edges of the canvas by its speed
  times the elapsed time and changes nothing else.
\<close>

lemma updateGame_cruise:
  assumes "isActive s" and "\<not> isPaused s"
    and "currentBlock s = Some b" and "isMoving b"
    and "lc_specialMechanics (currentLevelConfig s) \<noteq> Some ''wind_effect''"
    and "lc_specialMechanics (currentLevelConfig s) \<noteq> Some ''gravity_shift''"
    and "verticalSpeed b = 0"
    and "pos_y b = canvasHeight (config s)
                     - (real (length (tower s)) + 2) * blockHeight (config s)"
    and "0 \<le> blockHeight (config s)"
    and "0 < pos_x b + speed b * dt"
    and "pos_x b + speed b * dt + width b < canvasWidth (config s)"
    and "checkTowerStability s = s"
  shows "updateGame dt sw r s = s\<lparr> currentBlock := Some (b\<lparr> pos_x := pos_x b + speed b * dt \<rparr>) \<rparr>"
  using assms
  by (simp add: updateGame_def Block_update_def Let_def checkTowerStability_currentBlock)

lemma gameLoop_cruise:
  assumes "isActive s" and "\<not> isPaused s"
    and "currentBlock s = Some b" and "isMoving b"
    and "lc_specialMechanics (currentLevelConfig s) \<noteq> Some ''wind_effect''"
    and "lc_specialMechanics (currentLevelConfig s) \<noteq> Some ''gravity_shift''"
    and "verticalSpeed b = 0"
    and "pos_y b = canvasHeight (config s)
                     - (real (length (tower s)) + 2) * blockHeight (config s)"
    and "0 \<le> blockHeight (config s)"
    and "checkTowerStability s = s"
    and "0 \<le> pos_x b" and "0 < speed b * dt" and "dt \<le> 1000 / 30"
    and "pos_x b + real n * (speed b * dt) + width b < canvasWidth (config s)"
  shows "gameLoop (replicate n (dt, sw, r)) s
           = s\<lparr> currentBlock := Some (b\<lparr> pos_x := pos_x b + real n * (speed b * dt) \<rparr>) \<rparr>"
  using assms
proof (induction n arbitrary: s b)
  case 0
  then show ?case by simp
next
  case (Suc n)
  let ?b = "b\<lparr> pos_x := pos_x b + speed b * dt \<rparr>"
  let ?s = "s\<lparr> currentBlock := Some ?b \<rparr>"
  have "0 \<le> speed b * dt"
    using Suc.prems(12) by (rule less_imp_le)
  then have nn: "0 \<le> real n * (speed b * dt)"
    by (rule mult_nonneg_nonneg [OF of_nat_0_le_iff])
  have le: "speed b * dt \<le> real (Suc n) * (speed b * dt)"
    using nn by (simp add: distrib_right)
  have step: "updateGame dt sw r s = ?s"
    using Suc.prems le by (intro updateGame_cruise) simp_all
  have cap: "min dt (1000 / 30) = dt"
    using Suc.prems(13) by simp
  have "gameLoop (replicate (Suc n) (dt, sw, r)) s
          = gameLoop (replicate n (dt, sw, r)) (updateGame dt sw r s)"
    using cap by simp
  also have "\<dots> = gameLoop (replicate n (dt, sw, r)) ?s"
    by (simp only: step)
  also have "\<dots> = ?s\<lparr> currentBlock :=
                       Some (?b\<lparr> pos_x := pos_x ?b + real n * (speed ?b * dt) \<rparr>) \<rparr>"
    using Suc.prems
    by (intro Suc.IH) (simp_all add: checkTowerStability_currentBlock algebra_simps)
  also have "\<dots> = s\<lparr> currentBlock :=
                       Some (b\<lparr> pos_x := pos_x b + real (Suc n) * (speed b * dt) \<rparr>) \<rparr>"
    by (simp add: algebra_simps)
  finally show ?case .
qed

text \<open>The example sessions, with their frames carried out.\<close>

lemma alignedSession_eval [code]:
  "alignedSession = freshSession\<lparr> currentBlock := Some (Block 1 140 330 710 0.4 True) \<rparr>"
proof -
  let ?b = "Block 1 140 0 710 0.4 True"
  have "alignedSession
          = freshSession\<lparr> currentBlock := Some (?b\<lparr> pos_x := pos_x ?b + real 25 * (speed ?b * 33) \<rparr>) \<rparr>"
    unfolding alignedSession_def by (rule gameLoop_cruise; code_simp)
  also have "?b\<lparr> pos_x := pos_x ?b + real 25 * (speed ?b * 33) \<rparr> = Block 1 140 330 710 0.4 True"
    by code_simp
  finally show ?thesis .
qed

lemma grazingSession_eval [code]:
  "grazingSession = freshSession\<lparr> currentBlock := Some (Block 1 140 200 710 0.4 True) \<rparr>"
proof -
  let ?b = "Block 1 140 0 710 0.4 True"
  have "grazingSession
          = freshSession\<lparr> currentBlock := Some (?b\<lparr> pos_x := pos_x ?b + real 20 * (speed ?b * 25) \<rparr>) \<rparr>"
    unfolding grazingSession_def by (rule gameLoop_cruise; code_simp)
  also have "?b\<lparr> pos_x := pos_x ?b + real 20 * (speed ?b * 25) \<rparr> = Block 1 140 200 710 0.4 True"
    by code_simp
  finally show ?thesis .
qed

text \<open>The first two drops of the example session, carried out.\<close>

lemma firstDrop_state:
  "snd (dropBlock rnd0 alignedSession) =
     freshSession
       \<lparr> tower := tower freshSession
                   @ [(place (Block 1 140 330 740 0.4 True))\<lparr> perfectDrop := True \<rparr>],
         currentBlock := Some (Block 2 140 0 680 0.4 True),
         score := 115, blocksPlaced := 1, blocksInCurrentLevel := 1, comboStreak := 1 \<rparr>"
  by code_simp

lemma secondBlockSession_eval [code]:
  "secondBlockSession =
     freshSession
       \<lparr> tower := tower freshSession
                   @ [(place (Block 1 140 330 740 0.4 True))\<lparr> perfectDrop := True \<rparr>],
         currentBlock := Some (Block 2 140 330 680 0.4 True),
         score := 115, blocksPlaced := 1, blocksInCurrentLevel := 1, comboStreak := 1 \<rparr>"
proof -
  let ?b = "Block 2 140 0 680 0.4 True"
  let ?s = "freshSession
       \<lparr> tower := tower freshSession
                   @ [(place (Block 1 140 330 740 0.4 True))\<lparr> perfectDrop := True \<rparr>],
         currentBlock := Some ?b,
         score := 115, blocksPlaced := 1, blocksInCurrentLevel := 1, comboStreak := 1 \<rparr>"
  have "secondBlockSession
          = ?s\<lparr> currentBlock := Some (?b\<lparr> pos_x := pos_x ?b + real 25 * (speed ?b * 33) \<rparr>) \<rparr>"
    unfolding secondBlockSession_def firstDrop_state by (rule gameLoop_cruise; code_simp)
  also have "\<dots> = freshSession
       \<lparr> tower := tower freshSession
                   @ [(place (Block 1 140 330 740 0.4 True))\<lparr> perfectDrop := True \<rparr>],
         currentBlock := Some (Block 2 140 330 680 0.4 True),
         score := 115, blocksPlaced := 1, blocksInCurrentLevel := 1, comboStreak := 1 \<rparr>"
    by code_simp
  finally show ?thesis .
qed

lemma secondDrop_state:
  "snd (dropBlock rnd0 secondBlockSession) =
     freshSession
       \<lparr> tower := tower freshSession
                   @ [(place (Block 1 140 330 740 0.4 True))\<lparr> perfectDrop := True \<rparr>,
                      (place (Block 2 140 330 710 0.4 True))\<lparr> perfectDrop := True \<rparr>],
         currentBlock := Some (Block 3 140 0 650 0.4 True),
         score := 330, blocksPlaced := 2, blocksInCurrentLevel := 2, comboStreak := 2 \<rparr>"
  by code_simp

lemma thirdBlockSession_eval [code]:
  "thirdBlockSession =
     freshSession
       \<lparr> tower := tower freshSession
                   @ [(place (Block 1 140 330 740 0.4 True))\<lparr> perfectDrop := True \<rparr>,
                      (place (Block 2 140 330 710 0.4 True))\<lparr> perfectDrop := True \<rparr>],
         currentBlock := Some (Block 3 140 330 650 0.4 True),
         score := 330, blocksPlaced := 2, blocksInCurrentLevel := 2, comboStreak := 2 \<rparr>"
proof -
  let ?b = "Block 3 140 0 650 0.4 True"
  let ?s = "freshSession
       \<lparr> tower := tower freshSession
                   @ [(place (Block 1 140 330 740 0.4 True))\<lparr> perfectDrop := True \<rparr>,
                      (place (Block 2 140 330 710 0.4 True))\<lparr> perfectDrop := True \<rparr>],
         currentBlock := Some ?b,
         score := 330, blocksPlaced := 2, blocksInCurrentLevel := 2, comboStreak := 2 \<rparr>"
  have "thirdBlockSession
          = ?s\<lparr> currentBlock := Some (?b\<lparr> pos_x := pos_x ?b + real 25 * (speed ?b * 33) \<rparr>) \<rparr>"
    unfolding thirdBlockSession_def secondDrop_state by (rule gameLoop_cruise; code_simp)
  also have "\<dots> = freshSession
       \<lparr> tower := tower freshSession
                   @ [(place (Block 1 140 330 740 0.4 True))\<lparr> perfectDrop := True \<rparr>,
                      (place (Block 2 140 330 710 0.4 True))\<lparr> perfectDrop := True \<rparr>],
         currentBlock := Some (Block 3 140 330 650 0.4 True),
         score := 330, blocksPlaced := 2, blocksInCurrentLevel := 2, comboStreak := 2 \<rparr>"
    by code_simp
  finally show ?thesis .
qed

lemma overlap80Session_eval [code]:
  "overlap80Session = wideSession\<lparr> currentBlock := Some (Block 1 100 330 710 1.5 True) \<rparr>"
proof -
  let ?b = "Block 1 100 0 710 1.5 True"
  have "overlap80Session
          = wideSession\<lparr> currentBlock := Some (?b\<lparr> pos_x := pos_x ?b + real 8 * (speed ?b * 27.5) \<rparr>) \<rparr>"
    unfolding overlap80Session_def by (rule gameLoop_cruise; code_simp)
  also have "?b\<lparr> pos_x := pos_x ?b + real 8 * (speed ?b * 27.5) \<rparr> = Block 1 100 330 710 1.5 True"
    by code_simp
  finally show ?thesis .
qed

lemma overlap79Session_eval [code]:
  "overlap79Session = wideSession\<lparr> currentBlock := Some (Block 1 100 329 710 1.5 True) \<rparr>"
proof -
  let ?b = "Block 1 100 0 710 1.5 True"
  have "overlap79Session
          = wideSession\<lparr> currentBlock := Some (?b\<lparr> pos_x := pos_x ?b + real 7 * (speed ?b * (94 / 3)) \<rparr>) \<rparr>"
    unfolding overlap79Session_def by (rule gameLoop_cruise; code_simp)
  also have "?b\<lparr> pos_x := pos_x ?b + real 7 * (speed ?b * (94 / 3)) \<rparr> = Block 1 100 329 710 1.5 True"
    by code_simp
  finally show ?thesis .
qed

lemma level3Session_eval [code]:
  "level3Session =
     (initGame 3 rnd0 gameState0)\<lparr> currentBlock := Some (Block 1 100 280 710 0.8 True) \<rparr>"
proof -
  let ?b = "Block 1 100 0 710 0.8 True"
  have "level3Session
          = (initGame 3 rnd0 gameState0)
              \<lparr> currentBlock := Some (?b\<lparr> pos_x := pos_x ?b + real 14 * (speed ?b * 25) \<rparr>) \<rparr>"
    unfolding level3Session_def by (rule gameLoop_cruise; code_simp)
  also have "?b\<lparr> pos_x := pos_x ?b + real 14 * (speed ?b * 25) \<rparr> = Block 1 100 280 710 0.8 True"
    by code_simp
  finally show ?thesis .
qed

lemma narrowAlignedSession_eval [code]:
  "narrowAlignedSession = narrowSession\<lparr> currentBlock := Some (Block 1 140 330 710 0.4 True) \<rparr>"
proof -
  let ?b = "Block 1 140 0 710 0.4 True"
  have "narrowAlignedSession
          = narrowSession\<lparr> currentBlock := Some (?b\<lparr> pos_x := pos_x ?b + real 25 * (speed ?b * 33) \<rparr>) \<rparr>"
    unfolding narrowAlignedSession_def by (rule gameLoop_cruise; code_simp)
  also have "?b\<lparr> pos_x := pos_x ?b + real 25 * (speed ?b * 33) \<rparr> = Block 1 140 330 710 0.4 True"
    by code_simp
  finally show ?thesis .
qed

section \<open>Properties of the block methods\<close>

lemma calculateOverlap_nonneg: "0 \<le> calculateOverlap a b"
  by (simp add: calculateOverlap_def Let_def)

lemma calculateOverlap_le_width: "0 \<le> width a \<Longrightarrow> calculateOverlap a b \<le> width a"
  by (simp add: calculateOverlap_def Let_def)

lemma thresholdBlock_width:
  "width a = wa \<Longrightarrow> width (if wa < width b then a else b) = min wa (width b)"
  by (auto simp add: min_def)

lemma place_fields [simp]:
  "width (place b) = width b"
  "pos_x (place b) = pos_x b"
  "block_id (place b) = block_id b"
  "perfectDrop (place b) = perfectDrop b"
  by (simp_all add: place_def)

lemma shrink_fields [simp]:
  "width (shrink cfg w b) = max w (max (minBlockWidth cfg * 0.7) 20)"
  "pos_x (shrink cfg w b) = pos_x b"
  "block_id (shrink cfg w b) = block_id b"
  "perfectDrop (shrink cfg w b) = perfectDrop b"
  by (simp_all add: shrink_def Let_def)

lemma Block_update_width [simp]: "width (Block_update s dt sw r b) = width b"
  by (simp add: Block_update_def Let_def)

lemma Block_update_isMoving [simp]: "isMoving (Block_update s dt sw r b) = isMoving b"
  by (simp add: Block_update_def Let_def)

section \<open>Properties of block generation\<close>

lemma generateNewBlock_frame [simp]:
  "tower (generateNewBlock rnd s) = tower s"
  "score (generateNewBlock rnd s) = score s"
  "level (generateNewBlock rnd s) = level s"
  "isActive (generateNewBlock rnd s) = isActive s"
  "isPaused (generateNewBlock rnd s) = isPaused s"
  "blocksPlaced (generateNewBlock rnd s) = blocksPlaced s"
  "blocksInCurrentLevel (generateNewBlock rnd s) = blocksInCurrentLevel s"
  "perfectThreshold (generateNewBlock rnd s) = perfectThreshold s"
  "comboStreak (generateNewBlock rnd s) = comboStreak s"
  "config (generateNewBlock rnd s) = config s"
  "currentLevelConfig (generateNewBlock rnd s) = currentLevelConfig s"
  "currentLevelParams (generateNewBlock rnd s) = currentLevelParams s"
  by (simp_all add: generateNewBlock_def Let_def)

lemma generateNewBlock_current:
  "\<exists>b. currentBlock (generateNewBlock rnd s) = Some b \<and> isMoving b
       \<and> width b =
           max (minBlockWidth (config s))
             (wr_min (lp_blockWidthRange (currentLevelParams s))
              + rand1 rnd * (wr_max (lp_blockWidthRange (currentLevelParams s))
                             - wr_min (lp_blockWidthRange (currentLevelParams s))))
           * (if lc_specialMechanics (currentLevelConfig s) = Some ''size_reduction''
              then max 0.7 (1 - real_of_int (blocksInCurrentLevel s) * 0.05)
              else if lc_specialMechanics (currentLevelConfig s) = Some ''ultimate_challenge''
              then max 0.8 (1 - real_of_int (blocksInCurrentLevel s) * 0.03)
              else 1)"
  by (simp add: generateNewBlock_def Let_def Block_def)

lemma generateNewBlock_moving: "hasMovingBlock (generateNewBlock rnd s)"
  using generateNewBlock_current [of rnd s] by (auto simp add: hasMovingBlock_def)

text \<open>
  Whatever the level, its parameters and the random number are, a generated block is at
  least 0.7 times the configured minimum wide.
\<close>

lemma generateNewBlock_width_ge:
  assumes "0 \<le> minBlockWidth (config s)"
  shows "\<exists>b. currentBlock (generateNewBlock rnd s) = Some b \<and> isMoving b
           \<and> minBlockWidth (config s) * 0.7 \<le> width b"
proof -
  define m where "m = minBlockWidth (config s)"
  define w0 where "w0 = max m
             (wr_min (lp_blockWidthRange (currentLevelParams s))
              + rand1 rnd * (wr_max (lp_blockWidthRange (currentLevelParams s))
                             - wr_min (lp_blockWidthRange (currentLevelParams s))))"
  have w0: "m \<le> w0" by (simp add: w0_def)
  have m0: "0 \<le> m" using assms by (simp add: m_def)
  have mono: "m * 0.7 \<le> w0 * f" if "0.7 \<le> f" for f :: real
    using mult_mono [OF w0 that] m0 w0 by simp
  obtain b where b: "currentBlock (generateNewBlock rnd s) = Some b" "isMoving b"
    and wb: "width b = w0 * (if lc_specialMechanics (currentLevelConfig s) = Some ''size_reduction''
              then max 0.7 (1 - real_of_int (blocksInCurrentLevel s) * 0.05)
              else if lc_specialMechanics (currentLevelConfig s) = Some ''ultimate_challenge''
              then max 0.8 (1 - real_of_int (blocksInCurrentLevel s) * 0.03)
              else 1)"
    using generateNewBlock_current [of rnd s] unfolding w0_def m_def by blast
  have "m * 0.7 \<le> width b"
    unfolding wb by (intro mono) (simp add: max_def)
  with b show ?thesis unfolding m_def by blast
qed

lemma generateNewBlock_currentOk:
  assumes "config s = defaultConfig"
  shows "currentOk (generateNewBlock rnd s)"
  using generateNewBlock_width_ge [of s rnd] assms
  by (auto simp add: currentOk_def defaultConfig_def)

lemma currentOk_update [simp]:
  "currentOk (s\<lparr> currentBlock := Some c \<rparr>) \<longleftrightarrow> 28 \<le> width c"
  "currentOk (s\<lparr> isActive := a \<rparr>) \<longleftrightarrow> currentOk s"
  "currentOk (s\<lparr> isPaused := a \<rparr>) \<longleftrightarrow> currentOk s"
  by (simp_all add: currentOk_def)

section \<open>Properties of the second half of a drop\<close>

lemma quotaReached_frame [simp]:
  "quotaReached (s\<lparr> comboStreak := c \<rparr>) = quotaReached s"
  "quotaReached (s\<lparr> score := sc \<rparr>) = quotaReached s"
  by (simp_all add: quotaReached_def split: option.split)

lemma completeDrop_tower [simp]:
  "tower (snd (completeDrop rnd p ov s b)) = tower s @ [b]"
  by (simp add: completeDrop_def Let_def showGameCompleted_def showLevelComplete_def
      split: option.split)

lemma completeDrop_score [simp]:
  "score (snd (completeDrop rnd p ov s b)) = score s + (10 + level s * 5)"
  by (simp add: completeDrop_def Let_def showGameCompleted_def showLevelComplete_def
      split: option.split)

lemma completeDrop_comboStreak [simp]:
  "comboStreak (snd (completeDrop rnd p ov s b)) = comboStreak s"
  by (simp add: completeDrop_def Let_def showGameCompleted_def showLevelComplete_def
      split: option.split)

lemma completeDrop_blocksPlaced [simp]:
  "blocksPlaced (snd (completeDrop rnd p ov s b)) = blocksPlaced s + 1"
  by (simp add: completeDrop_def Let_def showGameCompleted_def showLevelComplete_def
      split: option.split)

lemma completeDrop_config [simp]:
  "config (snd (completeDrop rnd p ov s b)) = config s"
  by (simp add: completeDrop_def Let_def showGameCompleted_def showLevelComplete_def
      split: option.split)

lemma completeDrop_level:
  "level (snd (completeDrop rnd p ov s b)) =
     (if quotaReached s \<and> level s \<noteq> 7 then level s + 1 else level s)"
  by (simp add: completeDrop_def Let_def showGameCompleted_def showLevelComplete_def
      quotaReached_def split: option.split)

lemma completeDrop_result:
  "fst (completeDrop rnd p ov s b) =
     (if quotaReached s \<and> level s = 7 then Undefined
      else Success p ov (10 + level s * 5 + (if p then 100 * comboStreak s else 0)))"
  by (simp add: completeDrop_def Let_def showGameCompleted_def showLevelComplete_def
      quotaReached_def split: option.split)


lemma completeDrop_stay:
  assumes "\<not> quotaReached s"
  shows "blocksInCurrentLevel (snd (completeDrop rnd p ov s b)) = blocksInCurrentLevel s + 1"
    and "currentLevelConfig (snd (completeDrop rnd p ov s b)) = currentLevelConfig s"
    and "currentLevelParams (snd (completeDrop rnd p ov s b)) = currentLevelParams s"
    and "perfectThreshold (snd (completeDrop rnd p ov s b)) = perfectThreshold s"
  using assms
  by (auto simp add: completeDrop_def Let_def showGameCompleted_def showLevelComplete_def
      quotaReached_def split: option.splits)

lemma completeDrop_moving:
  assumes "\<not> quotaReached s"
  shows "hasMovingBlock (snd (completeDrop rnd p ov s b))"
  using assms
  by (cases "lc_blocksToComplete (currentLevelConfig s)")
     (auto simp add: completeDrop_def Let_def quotaReached_def generateNewBlock_moving)

lemma completeDrop_currentOk:
  assumes "config s = defaultConfig" and "28 \<le> width b"
  shows "currentOk (snd (completeDrop rnd p ov s b))"
proof -
  have gen: "currentOk (generateNewBlock rnd X)" if "config X = config s" for X
    using that assms(1) by (simp add: generateNewBlock_currentOk)
  show ?thesis
    using assms(2)
    by (simp add: completeDrop_def Let_def showGameCompleted_def showLevelComplete_def gen
        split: option.split)
       (simp add: currentOk_def)
qed

section \<open>Properties of a drop\<close>

text \<open>
  A drop of a moving block that overlaps the top of the tower always reaches the second
  half of \<open>dropBlock\<close>: after the perfect branch with the streak and the bonus, after the
  imperfect branch with the shrunk block.
\<close>

lemma dropBlock_hit:
  assumes "currentBlock s = Some cb" and "isMoving cb" and "tower s \<noteq> []"
    and "0 < calculateOverlap cb (last (tower s))"
  shows "dropBlock rnd s =
    (if perfectCond s cb
     then completeDrop rnd True (calculateOverlap cb (last (tower s)))
            (s\<lparr> comboStreak := comboStreak s + 1,
                score := score s
                  + 100 * (comboStreak s + 1)
                    * (if lc_specialMechanics (currentLevelConfig s)
                            = Some ''precision_challenge'' then 2 else 1) \<rparr>)
            ((place cb)\<lparr> pos_y := pos_y (last (tower s)) - blockHeight (config s),
                          verticalSpeed := 0, perfectDrop := True \<rparr>)
     else completeDrop rnd False (calculateOverlap cb (last (tower s)))
            (s\<lparr> comboStreak := 0 \<rparr>)
            (shrink (config s) (calculateOverlap cb (last (tower s)))
               ((place cb)\<lparr> pos_y := pos_y (last (tower s)) - blockHeight (config s),
                             verticalSpeed := 0 \<rparr>)))"
  using assms by (simp add: dropBlock_def Let_def thresholdBlock_width)

text \<open>No drop at all ends with the failure of the check after \<open>shrink\<close>.\<close>

lemma dropBlock_never_too_small:
  "fst (dropBlock rnd s) \<noteq> Failure True ''Block too small to continue!''"
proof (cases "currentBlock s")
  case None
  then show ?thesis by (simp add: dropBlock_def)
next
  case (Some cb)
  show ?thesis
  proof (cases "isMoving cb \<and> tower s \<noteq> [] \<and> 0 < calculateOverlap cb (last (tower s))")
    case True
    then have "currentBlock s = Some cb" "isMoving cb" "tower s \<noteq> []"
      "0 < calculateOverlap cb (last (tower s))"
      using Some by simp_all
    then show ?thesis
      by (simp add: dropBlock_hit completeDrop_result)
  next
    case False
    then show ?thesis
      using Some by (auto simp add: dropBlock_def Let_def)
  qed
qed

text \<open>
  C7. When the moving block has no overlap with the block on top of the tower, the drop is
  a miss: \<open>dropBlock\<close> reports a game-over failure with the message ``Block missed the
  tower!'' and the session is no longer active, while the tower, the score, the combo
  streak, both block counters and the level are as before.
\<close>

theorem miss_terminates_session:
  assumes "currentBlock s = Some cb" and "isMoving cb" and "tower s \<noteq> []"
    and "calculateOverlap cb (last (tower s)) = 0"
  shows "fst (dropBlock rnd s) = Failure True ''Block missed the tower!''
       \<and> \<not> isActive (snd (dropBlock rnd s))
       \<and> tower (snd (dropBlock rnd s)) = tower s
       \<and> score (snd (dropBlock rnd s)) = score s
       \<and> comboStreak (snd (dropBlock rnd s)) = comboStreak s
       \<and> blocksPlaced (snd (dropBlock rnd s)) = blocksPlaced s
       \<and> blocksInCurrentLevel (snd (dropBlock rnd s)) = blocksInCurrentLevel s
       \<and> level (snd (dropBlock rnd s)) = level s"
  using assms by (simp add: dropBlock_def Let_def)

theorem miss_terminates_session_witness:
  "currentBlock freshSession = Some (Block 1 140 0 710 0.4 True)
   \<and> isMoving (Block 1 140 0 710 0.4 True)
   \<and> tower freshSession \<noteq> []
   \<and> calculateOverlap (Block 1 140 0 710 0.4 True) (last (tower freshSession)) = 0
   \<and> fst (dropBlock rnd0 freshSession) = Failure True ''Block missed the tower!''
   \<and> \<not> isActive (snd (dropBlock rnd0 freshSession))
   \<and> tower (snd (dropBlock rnd0 freshSession)) = tower freshSession
   \<and> score (snd (dropBlock rnd0 freshSession)) = score freshSession
   \<and> comboStreak (snd (dropBlock rnd0 freshSession)) = comboStreak freshSession
   \<and> blocksPlaced (snd (dropBlock rnd0 freshSession)) = blocksPlaced freshSession
   \<and> blocksInCurrentLevel (snd (dropBlock rnd0 freshSession))
       = blocksInCurrentLevel freshSession
   \<and> level (snd (dropBlock rnd0 freshSession)) = level freshSession"
proof -
  have h1: "currentBlock freshSession = Some (Block 1 140 0 710 0.4 True)" by code_simp
  have h2: "isMoving (Block 1 140 0 710 0.4 True)" by code_simp
  have h3: "tower freshSession \<noteq> []" by code_simp
  have h4: "calculateOverlap (Block 1 140 0 710 0.4 True) (last (tower freshSession)) = 0"
    by code_simp
  from miss_terminates_session [OF h1 h2 h3 h4, of rnd0] h1 h2 h3 h4
  show ?thesis by blast
qed

text \<open>
  C10. The check after \<open>shrink\<close> can never succeed, because \<open>shrink\<close> raises the width to
  the very bound the check compares it with. So a drop of a moving block that overlaps
  the top of the tower never ends with the failure ``Block too small to continue!'': it
  returns a success (or nothing, when it completes the final level), and the tower grows
  by the dropped block, placed at its horizontal position one block height above the
  former top.
\<close>

theorem too_small_unreachable:
  assumes "currentBlock s = Some cb" and "isMoving cb" and "tower s \<noteq> []"
    and "0 < calculateOverlap cb (last (tower s))"
  shows "\<not> width (shrink cfg w b) < max (minBlockWidth cfg * 0.7) 20
       \<and> fst (dropBlock rnd s) \<noteq> Failure True ''Block too small to continue!''
       \<and> ((\<exists>p ov pts. fst (dropBlock rnd s) = Success p ov pts)
            \<or> fst (dropBlock rnd s) = Undefined)
       \<and> (\<exists>b'. tower (snd (dropBlock rnd s)) = tower s @ [b']
                \<and> block_id b' = block_id cb \<and> pos_x b' = pos_x cb
                \<and> pos_y b' = pos_y (last (tower s)) - blockHeight (config s)
                \<and> isPlaced b' \<and> \<not> isMoving b')"
  by (auto simp add: dropBlock_hit [OF assms] completeDrop_result place_def shrink_def Let_def)

theorem too_small_unreachable_witness:
  "currentBlock grazingSession = Some (Block 1 140 200 710 0.4 True)
   \<and> isMoving (Block 1 140 200 710 0.4 True)
   \<and> tower grazingSession \<noteq> []
   \<and> calculateOverlap (Block 1 140 200 710 0.4 True) (last (tower grazingSession)) = 15
   \<and> fst (dropBlock rnd0 grazingSession) = Success False 15 15
   \<and> map width (tower (snd (dropBlock rnd0 grazingSession))) = [150, 28]
   \<and> fst (dropBlock rnd0 grazingSession) \<noteq> Failure True ''Block too small to continue!''"
proof -
  have h1: "currentBlock grazingSession = Some (Block 1 140 200 710 0.4 True)" by code_simp
  have h2: "isMoving (Block 1 140 200 710 0.4 True)" by code_simp
  have h3: "tower grazingSession \<noteq> []" by code_simp
  have h4: "calculateOverlap (Block 1 140 200 710 0.4 True) (last (tower grazingSession)) = 15"
    by code_simp
  have h4': "0 < calculateOverlap (Block 1 140 200 710 0.4 True) (last (tower grazingSession))"
    unfolding h4 by simp
  have r: "fst (dropBlock rnd0 grazingSession) = Success False 15 15" by code_simp
  have t: "map width (tower (snd (dropBlock rnd0 grazingSession))) = [150, 28]"
    by code_simp
  from too_small_unreachable [OF h1 h2 h3 h4', of defaultConfig 15 "Block 1 140 200 710 0.4 True"
      rnd0] h1 h2 h3 h4 r t
  show ?thesis by blast
qed





section \<open>The width invariant of a session\<close>

lemma widthsOk_initGame:
  assumes "config s = defaultConfig"
  shows "widthsOk (initGame lvl rnd s)"
  using assms
  by (simp add: widthsOk_def initGame_def Let_def generateNewBlock_currentOk)
     (simp add: Block_def defaultConfig_def)

lemma widthsOk_dropBlock:
  assumes "widthsOk s"
  shows "widthsOk (snd (dropBlock rnd s))"
proof (cases "currentBlock s")
  case None
  with assms show ?thesis by (simp add: dropBlock_def)
next
  case (Some cb)
  from assms Some have cfg: "config s = defaultConfig"
    and tw: "\<forall>b \<in> set (tower s). 28 \<le> width b" and cb: "28 \<le> width cb"
    and ok: "currentOk s"
    by (simp_all add: widthsOk_def currentOk_def)
  have fl: "minBlockWidth defaultConfig = 40"
    by (simp add: defaultConfig_def)
  have cd: "currentOk (snd (completeDrop rnd p ov s' b))"
    if "config s' = defaultConfig" "28 \<le> width b" for p ov s' b
    using that by (rule completeDrop_currentOk)
  show ?thesis
    using Some cfg tw cb ok
    by (simp add: dropBlock_def Let_def widthsOk_def cd fl thresholdBlock_width)
qed

lemma checkTowerStability_frame [simp]:
  "currentBlock (checkTowerStability s) = currentBlock s"
  "config (checkTowerStability s) = config s"
  "score (checkTowerStability s) = score s"
  "level (checkTowerStability s) = level s"
  "comboStreak (checkTowerStability s) = comboStreak s"
  "blocksPlaced (checkTowerStability s) = blocksPlaced s"
  "blocksInCurrentLevel (checkTowerStability s) = blocksInCurrentLevel s"
  "perfectThreshold (checkTowerStability s) = perfectThreshold s"
  "currentLevelConfig (checkTowerStability s) = currentLevelConfig s"
  "currentLevelParams (checkTowerStability s) = currentLevelParams s"
  "map width (tower (checkTowerStability s)) = map width (tower s)"
  "length (tower (checkTowerStability s)) = length (tower s)"
  by (simp_all add: checkTowerStability_def Let_def triggerTowerCollapse_def comp_def)

lemma updateGame_frame [simp]:
  "config (updateGame dt sw r s) = config s"
  "score (updateGame dt sw r s) = score s"
  "level (updateGame dt sw r s) = level s"
  "comboStreak (updateGame dt sw r s) = comboStreak s"
  "blocksPlaced (updateGame dt sw r s) = blocksPlaced s"
  "blocksInCurrentLevel (updateGame dt sw r s) = blocksInCurrentLevel s"
  "perfectThreshold (updateGame dt sw r s) = perfectThreshold s"
  "currentLevelConfig (updateGame dt sw r s) = currentLevelConfig s"
  "currentLevelParams (updateGame dt sw r s) = currentLevelParams s"
  "map width (tower (updateGame dt sw r s)) = map width (tower s)"
  "length (tower (updateGame dt sw r s)) = length (tower s)"
  by (simp_all add: updateGame_def split: option.split)

lemma updateGame_current [simp]:
  "currentOk (updateGame dt sw r s) = currentOk s"
  "hasMovingBlock (updateGame dt sw r s) = hasMovingBlock s"
  by (auto simp add: updateGame_def currentOk_def hasMovingBlock_def split: option.split)

lemma widths_set: "(\<forall>b \<in> set tw. P (width b)) \<longleftrightarrow> (\<forall>w \<in> set (map width tw). P w)"
  by simp

lemma widthsOk_updateGame:
  assumes "widthsOk s"
  shows "widthsOk (updateGame dt sw r s)"
  using assms unfolding widthsOk_def widths_set by simp

lemma widthsOk_reachable: "reachable s \<Longrightarrow> widthsOk s"
proof (induction rule: reachable.induct)
  case (start s lvl rnd)
  then show ?case by (rule widthsOk_initGame)
next
  case (drop s rnd)
  then show ?case by (simp add: widthsOk_dropBlock)
next
  case (tick s deltaTime sway r)
  then show ?case by (simp add: widthsOk_updateGame)
next
  case (pause s)
  then show ?case by (simp add: widthsOk_def pauseGame_def)
next
  case (resume s)
  then show ?case by (simp add: widthsOk_def resumeGame_def)
next
  case (reset s rnd)
  then have "config s = defaultConfig" by (simp add: widthsOk_def)
  then have "widthsOk (initGame 1 rnd s)" by (rule widthsOk_initGame)
  then show ?case by (simp add: widthsOk_def resetGame_def)
qed

lemma reachable_gameLoop: "reachable s \<Longrightarrow> reachable (gameLoop fs s)"
proof (induction fs arbitrary: s)
  case Nil
  then show ?case by simp
next
  case (Cons f fs)
  obtain dt sw r where f: "f = (dt, sw, r)" by (cases f)
  from Cons.prems have "reachable (updateGame (min dt (1000 / 30)) sw r s)"
    by (rule reachable.tick)
  then have "reachable (gameLoop fs (updateGame (min dt (1000 / 30)) sw r s))"
    by (rule Cons.IH)
  then show ?case unfolding f by (simp only: gameLoop.simps Let_def)
qed

text \<open>
  C9, as stated, fails in its last clause: nothing ends a session for the width of a
  block in the tower. The base block takes the \<open>initialBlockWidth\<close> of the configuration
  as it is, so with an \<open>initialBlockWidth\<close> of 10 (and the minimum width of 40, whose
  bound is 28) a block 10 wide is in the tower of an active session right after
  \<open>initGame\<close>, and the drop onto it succeeds and leaves it there, the session still
  active. Likewise a moving block 10 wide that is dropped fully onto the tower is a
  perfect drop, is not shrunk or checked, and stays in the tower of the active session.
\<close>

theorem narrow_block_stays:
  "minBlockWidth (config narrowSession) = 40
   \<and> map width (tower narrowSession) = [10]
   \<and> \<not> max (minBlockWidth (config narrowSession) * 0.7) 20 \<le> width (last (tower narrowSession))
   \<and> isActive narrowSession
   \<and> fst (dropBlock rnd0 narrowAlignedSession) = Success True 10 115
   \<and> map width (tower (snd (dropBlock rnd0 narrowAlignedSession))) = [10, 140]
   \<and> isActive (snd (dropBlock rnd0 narrowAlignedSession))
   \<and> minBlockWidth (config thinBlockSession) = 40
   \<and> currentBlock thinBlockSession = Some (Block 1 10 390 710 0.4 True)
   \<and> fst (dropBlock rnd0 thinBlockSession) = Success True 10 115
   \<and> map width (tower (snd (dropBlock rnd0 thinBlockSession))) = [150, 10]
   \<and> isActive (snd (dropBlock rnd0 thinBlockSession))"
  by (intro conjI; code_simp)

text \<open>
  C9, amended. In every state of a session on the configuration of the source (initial
  width 150, minimum width 40, for which the bound \<open>max (minBlockWidth * 0.7) 20\<close> is 28)
  each block of the tower is at least as wide as the bound, and so is the block that is
  about to be dropped. This holds after \<open>initGame\<close>, and every drop keeps it, as do frame
  updates, pausing, resuming and resetting. No block ever violates the bound there, and
  no drop ends the session with the failure ``Block too small to continue!''.
\<close>

theorem tower_width_invariant:
  assumes "reachable s"
  shows "max (minBlockWidth (config s) * 0.7) 20 = 28
       \<and> (\<forall>b \<in> set (tower s). max (minBlockWidth (config s) * 0.7) 20 \<le> width b)
       \<and> (\<forall>cb. currentBlock s = Some cb \<longrightarrow> max (minBlockWidth (config s) * 0.7) 20 \<le> width cb)
       \<and> (\<forall>b \<in> set (tower (initGame lvl rnd s)).
              max (minBlockWidth (config s) * 0.7) 20 \<le> width b)
       \<and> (\<forall>b \<in> set (tower (snd (dropBlock rnd s))).
              max (minBlockWidth (config s) * 0.7) 20 \<le> width b)
       \<and> fst (dropBlock rnd s) \<noteq> Failure True ''Block too small to continue!''"
proof -
  from assms have ok: "widthsOk s"
    by (rule widthsOk_reachable)
  then have cfg: "config s = defaultConfig"
    by (simp add: widthsOk_def)
  have fl: "max (minBlockWidth (config s) * 0.7) 20 = 28"
    by (simp add: cfg defaultConfig_def)
  from cfg have "widthsOk (initGame lvl rnd s)"
    by (rule widthsOk_initGame)
  moreover from ok have "widthsOk (snd (dropBlock rnd s))"
    by (rule widthsOk_dropBlock)
  ultimately have "(\<forall>b \<in> set (tower s). 28 \<le> width b)
       \<and> (\<forall>cb. currentBlock s = Some cb \<longrightarrow> 28 \<le> width cb)
       \<and> (\<forall>b \<in> set (tower (initGame lvl rnd s)). 28 \<le> width b)
       \<and> (\<forall>b \<in> set (tower (snd (dropBlock rnd s))). 28 \<le> width b)"
    using ok by (auto simp add: widthsOk_def currentOk_def)
  then show ?thesis
    unfolding fl using dropBlock_never_too_small [of rnd s] by blast
qed

theorem tower_width_invariant_witness:
  "reachable grazingSession
   \<and> max (minBlockWidth (config grazingSession) * 0.7) 20 = 28
   \<and> map width (tower grazingSession) = [150]
   \<and> max (minBlockWidth (config grazingSession) * 0.7) 20 \<le> width (last (tower grazingSession))
   \<and> currentBlock grazingSession = Some (Block 1 140 200 710 0.4 True)
   \<and> max (minBlockWidth (config grazingSession) * 0.7) 20
       \<le> width (Block 1 140 200 710 0.4 True)
   \<and> map width (tower (initGame 1 rnd0 grazingSession)) = [150]
   \<and> max (minBlockWidth (config grazingSession) * 0.7) 20
       \<le> width (last (tower (initGame 1 rnd0 grazingSession)))
   \<and> map width (tower (snd (dropBlock rnd0 grazingSession))) = [150, 28]
   \<and> max (minBlockWidth (config grazingSession) * 0.7) 20
       \<le> width (last (tower (snd (dropBlock rnd0 grazingSession))))
   \<and> fst (dropBlock rnd0 grazingSession) = Success False 15 15
   \<and> fst (dropBlock rnd0 grazingSession) \<noteq> Failure True ''Block too small to continue!''"
proof -
  have "config gameState0 = defaultConfig" by (simp add: gameState0_def)
  then have "reachable freshSession"
    unfolding freshSession_def by (rule reachable.start)
  then have r: "reachable grazingSession"
    unfolding grazingSession_def by (rule reachable_gameLoop)
  have c: "currentBlock grazingSession = Some (Block 1 140 200 710 0.4 True)" by code_simp
  have t0: "map width (tower grazingSession) = [150]" by code_simp
  have t1: "map width (tower (initGame 1 rnd0 grazingSession)) = [150]" by code_simp
  have t2: "map width (tower (snd (dropBlock rnd0 grazingSession))) = [150, 28]"
    by code_simp
  have res: "fst (dropBlock rnd0 grazingSession) = Success False 15 15" by code_simp
  have l0: "last (tower grazingSession) \<in> set (tower grazingSession)"
    using t0 by (intro last_in_set) auto
  have l1: "last (tower (initGame 1 rnd0 grazingSession))
              \<in> set (tower (initGame 1 rnd0 grazingSession))"
    using t1 by (intro last_in_set) auto
  have l2: "last (tower (snd (dropBlock rnd0 grazingSession)))
              \<in> set (tower (snd (dropBlock rnd0 grazingSession)))"
    using t2 by (intro last_in_set) auto
  from tower_width_invariant [OF r, of 1 rnd0] r c t0 t1 t2 res l0 l1 l2
  show ?thesis by blast
qed

text \<open>
  C3, as stated, fails: \<open>shrink\<close> sets the width to the larger of the requested width and
  the relaxed minimum, so a request above the current width widens the block. A block 50
  wide asked to shrink to 100 becomes 100 wide.
\<close>

theorem shrink_can_widen:
  "\<not> width (shrink defaultConfig 100 (Block 1 50 0 0 0 True)) \<le> width (Block 1 50 0 0 0 True)"
  by (simp add: shrink_def Block_def defaultConfig_def Let_def)

text \<open>
  C3, amended. For every block and every requested width, the width after \<open>shrink\<close> is
  never below \<open>max (minBlockWidth * 0.7) 20\<close> (28 with the configured minimum of 40), and
  it is not above the width before whenever the requested width is not and the block was
  at least as wide as that bound. A drop that is not perfect places the block with the
  width \<open>max overlap (max (minBlockWidth * 0.7) 20)\<close>, and in a session this never exceeds
  the width the block had before the drop.
\<close>

theorem shrink_bounds:
  "max (minBlockWidth cfg * 0.7) 20 \<le> width (shrink cfg newWidth b)
   \<and> (newWidth \<le> width b \<and> max (minBlockWidth cfg * 0.7) 20 \<le> width b
        \<longrightarrow> width (shrink cfg newWidth b) \<le> width b)
   \<and> max (minBlockWidth defaultConfig * 0.7) 20 = 28
   \<and> (currentBlock s = Some cb \<and> isMoving cb \<and> tower s \<noteq> []
        \<and> 0 < calculateOverlap cb (last (tower s)) \<and> \<not> perfectCond s cb
        \<longrightarrow> width (last (tower (snd (dropBlock rnd s))))
              = max (calculateOverlap cb (last (tower s)))
                    (max (minBlockWidth (config s) * 0.7) 20)
            \<and> (reachable s \<longrightarrow> width (last (tower (snd (dropBlock rnd s)))) \<le> width cb))"
proof -
  have drop: "width (last (tower (snd (dropBlock rnd s))))
              = max (calculateOverlap cb (last (tower s)))
                    (max (minBlockWidth (config s) * 0.7) 20)"
    if "currentBlock s = Some cb" "isMoving cb" "tower s \<noteq> []"
      "0 < calculateOverlap cb (last (tower s))" "\<not> perfectCond s cb"
    using that(5) by (simp add: dropBlock_hit [OF that(1-4)])
  have sess: "max (calculateOverlap cb (last (tower s)))
                (max (minBlockWidth (config s) * 0.7) 20) \<le> width cb"
    if "currentBlock s = Some cb" "reachable s"
  proof -
    from widthsOk_reachable [OF that(2)] that(1)
    have "config s = defaultConfig" and w: "28 \<le> width cb"
      by (simp_all add: widthsOk_def currentOk_def)
    then have "max (minBlockWidth (config s) * 0.7) 20 = 28"
      by (simp add: defaultConfig_def)
    moreover have "calculateOverlap cb (last (tower s)) \<le> width cb"
      using w by (intro calculateOverlap_le_width) simp
    ultimately show ?thesis using w by simp
  qed
  show ?thesis
    using drop sess by (simp add: defaultConfig_def)
qed

theorem shrink_bounds_witness:
  "currentBlock grazingSession = Some (Block 1 140 200 710 0.4 True)
   \<and> isMoving (Block 1 140 200 710 0.4 True)
   \<and> tower grazingSession \<noteq> []
   \<and> calculateOverlap (Block 1 140 200 710 0.4 True) (last (tower grazingSession)) = 15
   \<and> \<not> perfectCond grazingSession (Block 1 140 200 710 0.4 True)
   \<and> reachable grazingSession
   \<and> max (minBlockWidth (config grazingSession) * 0.7) 20 = 28
   \<and> width (last (tower (snd (dropBlock rnd0 grazingSession)))) = max 15 28
   \<and> width (last (tower (snd (dropBlock rnd0 grazingSession))))
       \<le> width (Block 1 140 200 710 0.4 True)
   \<and> (15::real) \<le> width (Block 1 140 200 710 0.4 True)
   \<and> max (minBlockWidth defaultConfig * 0.7) 20 \<le> width (Block 1 140 200 710 0.4 True)
   \<and> width (shrink defaultConfig 15 (Block 1 140 200 710 0.4 True))
       \<le> width (Block 1 140 200 710 0.4 True)
   \<and> max (minBlockWidth defaultConfig * 0.7) 20
       \<le> width (shrink defaultConfig 15 (Block 1 140 200 710 0.4 True))"
proof -
  let ?a = "Block 1 140 200 710 0.4 True"
  have h1: "currentBlock grazingSession = Some ?a" by code_simp
  have h2: "isMoving ?a" by code_simp
  have h3: "tower grazingSession \<noteq> []" by code_simp
  have h4: "calculateOverlap ?a (last (tower grazingSession)) = 15" by code_simp
  have h4': "0 < calculateOverlap ?a (last (tower grazingSession))" unfolding h4 by simp
  have h5: "\<not> perfectCond grazingSession ?a" by code_simp
  have "config gameState0 = defaultConfig" by (simp add: gameState0_def)
  then have "reachable freshSession"
    unfolding freshSession_def by (rule reachable.start)
  then have h6: "reachable grazingSession"
    unfolding grazingSession_def by (rule reachable_gameLoop)
  have h7: "max (minBlockWidth (config grazingSession) * 0.7) 20 = 28" by code_simp
  have h8: "(15::real) \<le> width ?a" "max (minBlockWidth defaultConfig * 0.7) 20 \<le> width ?a"
    by code_simp+
  note sb = shrink_bounds [of defaultConfig 15 ?a grazingSession ?a rnd0]
  from sb h1 h2 h3 h4' h5 h6
  have d: "width (last (tower (snd (dropBlock rnd0 grazingSession)))) = max 15 28
         \<and> width (last (tower (snd (dropBlock rnd0 grazingSession)))) \<le> width ?a"
    unfolding h4 h7 by blast
  from sb h8
  have e: "width (shrink defaultConfig 15 ?a) \<le> width ?a
         \<and> max (minBlockWidth defaultConfig * 0.7) 20 \<le> width (shrink defaultConfig 15 ?a)"
    by blast
  from h1 h2 h3 h4 h5 h6 h7 h8 d e show ?thesis by blast
qed



section \<open>The stability check\<close>







section \<open>A session at level 1\<close>

lemma getLevelConfig_1:
  "lc_blocksToComplete (getLevelConfig 1) = Some 3"
  "lc_specialMechanics (getLevelConfig 1) = Some ''tutorial''"
  "lp_perfectThreshold (calculateLevelParameters 1) = 0.4"
  by (simp_all add: getLevelConfig_def calculateLevelParameters_def LEVELS_def Let_def)

lemma level1Ready_initGame:
  assumes "config s = defaultConfig"
  shows "level1Ready (initGame 1 rnd s) 0 0 0"
  unfolding level1Ready_def
  using widthsOk_initGame [OF assms, of 1 rnd]
  by (simp add: initGame_def Let_def getLevelConfig_1 generateNewBlock_moving)

lemma tower_nonempty_length: "tower s \<noteq> [] \<longleftrightarrow> 0 < length (tower s)"
  by simp

lemma level1Ready_updateGame:
  assumes "level1Ready s k c sc"
  shows "level1Ready (updateGame dt sw r s) k c sc"
  using assms widthsOk_updateGame [of s dt sw r]
  unfolding level1Ready_def tower_nonempty_length by simp

lemma level1Ready_gameLoop:
  "level1Ready s k c sc \<Longrightarrow> level1Ready (gameLoop fs s) k c sc"
proof (induction fs arbitrary: s)
  case Nil
  then show ?case by simp
next
  case (Cons f fs)
  obtain dt sw r where f: "f = (dt, sw, r)" by (cases f)
  from Cons.prems have "level1Ready (updateGame (min dt (1000 / 30)) sw r s) k c sc"
    by (rule level1Ready_updateGame)
  then have "level1Ready (gameLoop fs (updateGame (min dt (1000 / 30)) sw r s)) k c sc"
    by (rule Cons.IH)
  then show ?case unfolding f by (simp only: gameLoop.simps Let_def)
qed

text \<open>
  A drop at level 1 of a block that fully overlaps the top of the tower is perfect: the
  streak grows by one and the score by the bonus and the 15 base points; the session
  stays at level 1 until the third block, which takes it to level 2.
\<close>

lemma full_overlap_drop:
  assumes r: "level1Ready s k c sc" and f: "fullyOverlaps s"
  shows "score (snd (dropBlock rnd s)) = sc + 100 * (c + 1) + 15"
    and "comboStreak (snd (dropBlock rnd s)) = c + 1"
    and "k < 2 \<Longrightarrow>
           level1Ready (snd (dropBlock rnd s)) (k + 1) (c + 1) (sc + 100 * (c + 1) + 15)"
    and "k = 2 \<Longrightarrow> level (snd (dropBlock rnd s)) = 2"
proof -
  from r obtain cb where cb: "currentBlock s = Some cb" and mv: "isMoving cb"
    unfolding level1Ready_def hasMovingBlock_def by (cases "currentBlock s") auto
  from r have tw: "tower s \<noteq> []" and ok: "widthsOk s"
    and lv: "level s = 1" and lc: "currentLevelConfig s = getLevelConfig 1"
    and pt: "perfectThreshold s = 0.4" and k: "blocksInCurrentLevel s = k"
    and c: "comboStreak s = c" and sc: "score s = sc"
    unfolding level1Ready_def by simp_all
  from ok cb tw have wcb: "28 \<le> width cb" and wtop: "28 \<le> width (last (tower s))"
    by (simp_all add: widthsOk_def currentOk_def)
  from f cb have ov: "calculateOverlap cb (last (tower s)) = min (width cb) (width (last (tower s)))"
    by (simp add: fullyOverlaps_def)
  have pos: "0 < calculateOverlap cb (last (tower s))"
    unfolding ov using wcb wtop by simp
  have mn: "0 \<le> min (width cb) (width (last (tower s)))"
    using wcb wtop by simp
  have perfect: "perfectCond s cb"
    unfolding ov pt by (rule doubleProduct_le [OF mn]) simp_all
  have sm: "lc_specialMechanics (currentLevelConfig s) \<noteq> Some ''precision_challenge''"
    by (simp add: lc getLevelConfig_1)
  have hit: "dropBlock rnd s =
      completeDrop rnd True (calculateOverlap cb (last (tower s)))
        (s\<lparr> comboStreak := comboStreak s + 1, score := score s + 100 * (comboStreak s + 1) \<rparr>)
        ((place cb)\<lparr> pos_y := pos_y (last (tower s)) - blockHeight (config s),
                      verticalSpeed := 0, perfectDrop := True \<rparr>)"
    unfolding dropBlock_hit [OF cb mv tw pos, of rnd]
    using perfect sm by (simp only: if_True if_False mult_1_right)
  show "score (snd (dropBlock rnd s)) = sc + 100 * (c + 1) + 15"
    using lv c sc by (simp add: hit)
  show "comboStreak (snd (dropBlock rnd s)) = c + 1"
    using c by (simp add: hit)
  have q: "quotaReached s \<longleftrightarrow> 2 \<le> k"
    by (simp add: quotaReached_def lc getLevelConfig_1 k)
  have ok': "widthsOk (snd (dropBlock rnd s))"
    using ok by (rule widthsOk_dropBlock)
  show "level1Ready (snd (dropBlock rnd s)) (k + 1) (c + 1) (sc + 100 * (c + 1) + 15)"
    if "k < 2"
  proof -
    from that q have nq: "\<not> quotaReached s" by simp
    show ?thesis
      unfolding level1Ready_def
      using ok' nq lv lc pt k c sc tw
      by (simp add: hit completeDrop_level completeDrop_stay completeDrop_moving)
  qed
  show "level (snd (dropBlock rnd s)) = 2" if "k = 2"
    using that q lv by (simp add: hit completeDrop_level)
qed

text \<open>
  C6. A fresh session at level 1 (on the configuration of the source), followed by three
  drops, each made while the active block fully overlaps the top of the tower, with any
  frames of the game loop before each drop: the session is then at level 2, the score is
  \<open>(10 + 1 * 5) * 3 + 100 * 1 + 100 * 2 + 100 * 3 = 645\<close> and the combo streak is 3.
\<close>

theorem three_perfect_drops:
  assumes "config s = defaultConfig"
    and "a0 = gameLoop fs0 (initGame 1 rnd0' s)" and "fullyOverlaps a0"
    and "a1 = gameLoop fs1 (snd (dropBlock rnd1 a0))" and "fullyOverlaps a1"
    and "a2 = gameLoop fs2 (snd (dropBlock rnd2 a1))" and "fullyOverlaps a2"
    and "s3 = snd (dropBlock rnd3 a2)"
  shows "level s3 = 2
       \<and> score s3 = (10 + 1 * 5) * 3 + 100 * 1 + 100 * 2 + 100 * 3
       \<and> score s3 = 645
       \<and> comboStreak s3 = 3"
proof -
  have r0: "level1Ready a0 0 0 0"
    unfolding assms(2) by (intro level1Ready_gameLoop level1Ready_initGame assms(1))
  have "level1Ready (snd (dropBlock rnd1 a0)) 1 1 115"
    using full_overlap_drop(3) [OF r0 assms(3), of rnd1] by simp
  then have r1: "level1Ready a1 1 1 115"
    unfolding assms(4) by (rule level1Ready_gameLoop)
  have "level1Ready (snd (dropBlock rnd2 a1)) 2 2 330"
    using full_overlap_drop(3) [OF r1 assms(5), of rnd2] by simp
  then have r2: "level1Ready a2 2 2 330"
    unfolding assms(6) by (rule level1Ready_gameLoop)
  show ?thesis
    unfolding assms(8)
    using full_overlap_drop(1,2,4) [OF r2 assms(7), of rnd3] by simp
qed

text \<open>
  The three blocks of the example session, each brought to 330 by 25 frames of 33 and
  dropped there.
\<close>

theorem three_perfect_drops_witness:
  "config gameState0 = defaultConfig
   \<and> alignedSession = gameLoop (replicate 25 (33, 0, 0)) (initGame 1 rnd0 gameState0)
   \<and> fullyOverlaps alignedSession
   \<and> secondBlockSession
       = gameLoop (replicate 25 (33, 0, 0)) (snd (dropBlock rnd0 alignedSession))
   \<and> fullyOverlaps secondBlockSession
   \<and> thirdBlockSession
       = gameLoop (replicate 25 (33, 0, 0)) (snd (dropBlock rnd0 secondBlockSession))
   \<and> fullyOverlaps thirdBlockSession
   \<and> level (snd (dropBlock rnd0 thirdBlockSession)) = 2
   \<and> score (snd (dropBlock rnd0 thirdBlockSession)) = 645
   \<and> comboStreak (snd (dropBlock rnd0 thirdBlockSession)) = 3"
proof -
  have c: "config gameState0 = defaultConfig" by (simp add: gameState0_def)
  have e0: "alignedSession = gameLoop (replicate 25 (33, 0, 0)) (initGame 1 rnd0 gameState0)"
    unfolding alignedSession_def freshSession_def ..
  have e1: "secondBlockSession
              = gameLoop (replicate 25 (33, 0, 0)) (snd (dropBlock rnd0 alignedSession))"
    unfolding secondBlockSession_def ..
  have e2: "thirdBlockSession
              = gameLoop (replicate 25 (33, 0, 0)) (snd (dropBlock rnd0 secondBlockSession))"
    unfolding thirdBlockSession_def ..
  have f0: "fullyOverlaps alignedSession" by code_simp
  have f1: "fullyOverlaps secondBlockSession" by code_simp
  have f2: "fullyOverlaps thirdBlockSession" by code_simp
  from three_perfect_drops [OF c e0 f0 e1 f1 e2 f2 refl, of rnd0] c e0 f0 e1 f1 e2 f2
  show ?thesis by blast
qed

end
